theory Spec2Isabelle
  imports Complex_Main
begin

section \<open>Values of the host language\<close>

text \<open>
  The server is written in TypeScript and handles values of unknown shape, so the
  embedding starts from a datatype of JavaScript values: the values \<open>JSON.parse\<close> can
  return, and the values a caller who hands over an already parsed request can put in
  it as well (\<open>undefined\<close>, the non-finite numbers, functions, \<open>String\<close> objects, which
  \<open>isString\<close> of the source asks for by name). A finite number is a rational: the code
  never computes with a number, it only classifies it. A function value is an opaque
  identity; what calling it does is given by the host (see below). An object is the
  list of its own properties, each key once.

  Outside the value model: symbols and big integers, accessor properties and proxies,
  and objects that carry their own \<open>valueOf\<close> or \<open>toString\<close>.
\<close>

datatype jsnum = Fin rat | NaN | PosInfinity | NegInfinity

datatype jsval =
    JUndefined
  | JNull
  | JBool bool
  | JNum jsnum
  | JStr string
  | JStringObj string
  | JArr "jsval list"
  | JObj "(string \<times> jsval) list"
  | JFun nat

text \<open>
  What a \<open>throw\<close> carries: an instance of the class \<open>JsonRpcRequestException\<close> with its
  \<open>errorObj\<close> field, or any other value. A promise is modelled by how it ends: fulfilled,
  rejected, or never settled. A called function returns a plain value, returns a
  promise, or throws.
\<close>

datatype jsexn = RequestException jsval | OtherException jsval

datatype 'a promise = Fulfilled 'a | Rejected jsexn | Pending

datatype behaviour = Returns jsval | ReturnsPromise "jsval promise" | Throws jsexn

datatype call = Call nat "jsval list"

text \<open>
  The parts of the JavaScript runtime the source calls and does not define are
  parameters of the model. \<open>StringToNumber\<close> is the numeric-string grammar behind
  \<open>Number(v)\<close> and \<open>isFinite(v)\<close>; \<open>ObjectToNumber\<close> is the same conversion for objects
  (arrays, functions, \<open>String\<close> objects); \<open>JSON_parse\<close> gives \<open>None\<close> where
  \<open>JSON.parse\<close> throws; \<open>Object_prototype\<close> holds the properties every object literal
  inherits; \<open>apply_function\<close> is what calling a function value with an argument list
  does: a function of the arguments, so what a handler does to the server, to the
  context or to another handler is outside the model, and so is what \<open>console.error\<close>
  prints. Every general theorem below holds for every host.
\<close>

record host =
  StringToNumber :: "string \<Rightarrow> jsnum"
  ObjectToNumber :: "jsval \<Rightarrow> jsnum"
  JSON_parse :: "string \<Rightarrow> jsval option"
  JSON_stringify :: "jsval \<Rightarrow> string"
  Object_prototype :: "string \<Rightarrow> jsval option"
  apply_function :: "nat \<Rightarrow> jsval list \<Rightarrow> behaviour"

fun typeof :: "jsval \<Rightarrow> string" where
  "typeof JUndefined = ''undefined''"
| "typeof JNull = ''object''"
| "typeof (JBool b) = ''boolean''"
| "typeof (JNum n) = ''number''"
| "typeof (JStr s) = ''string''"
| "typeof (JStringObj s) = ''object''"
| "typeof (JArr xs) = ''object''"
| "typeof (JObj ps) = ''object''"
| "typeof (JFun f) = ''function''"

text \<open>The truth value a condition \<open>if(v)\<close>, \<open>!v\<close> or \<open>v ? a : b\<close> reads.\<close>

fun truthy :: "jsval \<Rightarrow> bool" where
  "truthy JUndefined = False"
| "truthy JNull = False"
| "truthy (JBool b) = b"
| "truthy (JNum (Fin r)) = (r \<noteq> 0)"
| "truthy (JNum NaN) = False"
| "truthy (JNum PosInfinity) = True"
| "truthy (JNum NegInfinity) = True"
| "truthy (JStr s) = (s \<noteq> [])"
| "truthy (JStringObj s) = True"
| "truthy (JArr xs) = True"
| "truthy (JObj ps) = True"
| "truthy (JFun f) = True"

text \<open>\<open>v === Object(v)\<close>: the value is an object and not a primitive.\<close>

fun isObject :: "jsval \<Rightarrow> bool" where
  "isObject (JStringObj s) = True"
| "isObject (JArr xs) = True"
| "isObject (JObj ps) = True"
| "isObject (JFun f) = True"
| "isObject v = False"

fun Array_isArray :: "jsval \<Rightarrow> bool" where
  "Array_isArray (JArr xs) = True"
| "Array_isArray v = False"

text \<open>
  \<open>v.k\<close> and \<open>'k' in v\<close> for the property names the source reads from a request or an
  error object (\<open>jsonrpc\<close>, \<open>id\<close>, \<open>method\<close>, \<open>params\<close>, \<open>code\<close>, \<open>message\<close>, \<open>data\<close>): none
  of them is a property of a built-in prototype, so only own properties are seen, and
  arrays, functions, strings and the other primitives have none of them. Reading a
  property of \<open>undefined\<close> or \<open>null\<close> throws; the source does so in one place only, which
  the model guards there.
\<close>

fun getProp :: "jsval \<Rightarrow> string \<Rightarrow> jsval" where
  "getProp (JObj ps) k = (case map_of ps k of Some v \<Rightarrow> v | None \<Rightarrow> JUndefined)"
| "getProp v k = JUndefined"

fun hasProp :: "jsval \<Rightarrow> string \<Rightarrow> bool" where
  "hasProp (JObj ps) k = (map_of ps k \<noteq> None)"
| "hasProp v k = False"

text \<open>The string of a string value, as a property key or in a concatenation.\<close>

fun stringValue :: "jsval \<Rightarrow> string" where
  "stringValue (JStr s) = s"
| "stringValue (JStringObj s) = s"
| "stringValue v = []"

subsection \<open>Number conversion\<close>

fun Number_js :: "host \<Rightarrow> jsval \<Rightarrow> jsnum" where
  "Number_js h JUndefined = NaN"
| "Number_js h JNull = Fin 0"
| "Number_js h (JBool b) = Fin (if b then 1 else 0)"
| "Number_js h (JNum n) = n"
| "Number_js h (JStr s) = StringToNumber h s"
| "Number_js h v = ObjectToNumber h v"

fun isNaN :: "jsnum \<Rightarrow> bool" where
  "isNaN NaN = True"
| "isNaN n = False"

text \<open>The global \<open>isFinite\<close> converts its argument to a number first.\<close>

definition isFinite :: "host \<Rightarrow> jsval \<Rightarrow> bool" where
  "isFinite h v = (case Number_js h v of Fin r \<Rightarrow> True | _ \<Rightarrow> False)"

section \<open>The error model\<close>

definition PARSE_ERROR :: jsval where "PARSE_ERROR = JNum (Fin (- 32700))"
definition INVALID_REQUEST :: jsval where "INVALID_REQUEST = JNum (Fin (- 32600))"
definition METHOD_NOT_FOUND :: jsval where "METHOD_NOT_FOUND = JNum (Fin (- 32601))"
definition INVALID_PARAMS :: jsval where "INVALID_PARAMS = JNum (Fin (- 32602))"
definition INTERNAL_ERROR :: jsval where "INTERNAL_ERROR = JNum (Fin (- 32603))"

definition isNumeric :: "host \<Rightarrow> jsval \<Rightarrow> bool" where
  "isNumeric h v = (\<not> isNaN (Number_js h v) \<and> isFinite h v)"

definition isString :: "jsval \<Rightarrow> bool" where
  "isString v = (typeof v = ''string'' \<or> (case v of JStringObj s \<Rightarrow> True | _ \<Rightarrow> False))"

text \<open>An argument the caller leaves out is \<open>JUndefined\<close>.\<close>

definition createErrorObject :: "host \<Rightarrow> jsval \<Rightarrow> jsval \<Rightarrow> jsval \<Rightarrow> jsval" where
  "createErrorObject h code message dat =
     JObj ([(''code'', if isNumeric h code then code else INTERNAL_ERROR),
            (''message'', if truthy message then message else JStr ''Unspecified error'')]
           @ (if truthy dat then [(''data'', dat)] else []))"

definition createErrorResponse :: "host \<Rightarrow> jsval \<Rightarrow> jsval \<Rightarrow> jsval \<Rightarrow> jsval \<Rightarrow> jsval" where
  "createErrorResponse h rid code message dat =
     JObj [(''jsonrpc'', JStr ''2.0''),
           (''error'', createErrorObject h code message dat),
           (''id'', if rid = JUndefined then JNull else rid)]"

definition createParseErrorResponse :: "host \<Rightarrow> jsval \<Rightarrow> jsval \<Rightarrow> jsval" where
  "createParseErrorResponse h message dat =
     createErrorResponse h JNull PARSE_ERROR
       (if message = JUndefined then JStr ''Unable to parse JSON'' else message) dat"

definition createResultResponse :: "jsval \<Rightarrow> jsval \<Rightarrow> jsval" where
  "createResultResponse result rid =
     JObj [(''jsonrpc'', JStr ''2.0''), (''result'', result), (''id'', rid)]"

text \<open>
  The constructor of the exception class, as \<open>src/TinyJsonRpcServer.ts\<close> has it: a first
  argument that \<open>isNumeric\<close> accepts is a code, anything else is stored as it is.
\<close>

definition JsonRpcRequestException :: "host \<Rightarrow> jsval \<Rightarrow> jsval \<Rightarrow> jsval \<Rightarrow> jsexn" where
  "JsonRpcRequestException h codeOrObject message dat =
     RequestException
       (if isNumeric h codeOrObject then createErrorObject h codeOrObject message dat
        else codeOrObject)"

text \<open>
  The same constructor as the JavaScript build of the library has it (the file the test
  suite loads): a first argument that is an object is stored as it is, anything else is
  a code.
\<close>

definition JsonRpcRequestException_lib :: "host \<Rightarrow> jsval \<Rightarrow> jsval \<Rightarrow> jsval \<Rightarrow> jsexn" where
  "JsonRpcRequestException_lib h codeOrObject message dat =
     RequestException
       (if isObject codeOrObject then codeOrObject
        else createErrorObject h codeOrObject message dat)"

fun errorObj :: "jsexn \<Rightarrow> jsval" where
  "errorObj (RequestException eo) = eo"
| "errorObj (OtherException x) = JUndefined"

section \<open>The request validator\<close>

text \<open>
  \<open>_validateRequest\<close>: \<open>JNull\<close> for a request that passes, the error response
  otherwise. The local \<open>requestId\<close> starts as \<open>null\<close> and is assigned when the \<open>id\<close>
  check passes.
\<close>

definition validId :: "host \<Rightarrow> jsval \<Rightarrow> bool" where
  "validId h v = (isNumeric h v \<or> isString v \<or> v = JNull)"

definition validParams :: "jsval \<Rightarrow> bool" where
  "validParams v =
     (Array_isArray v \<or> typeof v = ''function'' \<or> typeof v = ''object'')"

definition private_validateRequest :: "host \<Rightarrow> jsval \<Rightarrow> jsval" where
  "private_validateRequest h request =
     (let requestId = JNull in
      if \<not> isObject request then
        createErrorResponse h requestId INVALID_REQUEST (JStr ''Invalid request'') JUndefined
      else if \<not> truthy (getProp request ''jsonrpc'') then
        createErrorResponse h requestId INVALID_REQUEST
          (JStr ''Invalid request, missing jsonrpc version'') JUndefined
      else if hasProp request ''id'' \<and> \<not> validId h (getProp request ''id'') then
        createErrorResponse h requestId INVALID_REQUEST
          (JStr ''Invalid request, invalid id'') JUndefined
      else
        let requestId = (if hasProp request ''id'' then getProp request ''id'' else requestId) in
        if \<not> isString (getProp request ''method'') \<or> getProp request ''method'' = JStr [] then
          createErrorResponse h requestId INVALID_REQUEST
            (JStr ''Invalid request, missing method'') JUndefined
        else if truthy (getProp request ''params'') \<and> \<not> validParams (getProp request ''params'') then
          createErrorResponse h requestId INVALID_REQUEST
            (JStr ''Invalid request, invalid parameter type'') JUndefined
        else JNull)"

section \<open>The server\<close>

text \<open>
  The two fields of the class: the own properties of the object \<open>_methods\<close>, and
  \<open>_methodCallback\<close>.
\<close>

record server =
  methods :: "(string \<times> jsval) list"
  methodCallback :: jsval

definition new_TinyJsonRpcServer :: server where
  "new_TinyJsonRpcServer = \<lparr> methods = [], methodCallback = JUndefined \<rparr>"

text \<open>
  \<open>{ ...this._methods, ...methodObj }\<close>: a key of \<open>methodObj\<close> overwrites the same key
  registered before, so the new entries are looked up first.
\<close>

definition registerMethods :: "server \<Rightarrow> (string \<times> jsval) list \<Rightarrow> server" where
  "registerMethods srv methodObj = srv \<lparr> methods := methodObj @ methods srv \<rparr>"

definition registerMethodCallback :: "server \<Rightarrow> jsval \<Rightarrow> server" where
  "registerMethodCallback srv cb = srv \<lparr> methodCallback := cb \<rparr>"

text \<open>
  \<open>this._methods[name]\<close>. The registry is an object literal, so a name it does not own
  is looked up in \<open>Object.prototype\<close>, as every property read of JavaScript is.
\<close>

definition lookupMethod :: "host \<Rightarrow> (string \<times> jsval) list \<Rightarrow> string \<Rightarrow> jsval" where
  "lookupMethod h ms name =
     (case map_of ms name of
        Some v \<Rightarrow> v
      | None \<Rightarrow> (case Object_prototype h name of Some v \<Rightarrow> v | None \<Rightarrow> JUndefined))"

subsection \<open>Promises\<close>

text \<open>
  \<open>p.then(f)\<close> and \<open>p.catch(f)\<close>. The callback's own outcome is a promise as well: a
  returned value is \<open>Fulfilled\<close>, a \<open>throw\<close> is \<open>Rejected\<close>, a returned promise is itself.
  \<open>Promise.all\<close> fulfils with the values in the order of its argument when every
  promise fulfils, rejects when one rejects (the model takes the first of them in the
  list), and stays pending otherwise.
\<close>

definition then_promise :: "'a promise \<Rightarrow> ('a \<Rightarrow> 'b promise) \<Rightarrow> 'b promise" where
  "then_promise p f = (case p of Fulfilled v \<Rightarrow> f v | Rejected e \<Rightarrow> Rejected e | Pending \<Rightarrow> Pending)"

definition catch_promise :: "'a promise \<Rightarrow> (jsexn \<Rightarrow> 'a promise) \<Rightarrow> 'a promise" where
  "catch_promise p f = (case p of Rejected e \<Rightarrow> f e | Fulfilled v \<Rightarrow> Fulfilled v | Pending \<Rightarrow> Pending)"

fun first_rejection :: "'a promise list \<Rightarrow> jsexn option" where
  "first_rejection [] = None"
| "first_rejection (Rejected e # ps) = Some e"
| "first_rejection (p # ps) = first_rejection ps"

fun fulfilled_values :: "'a promise list \<Rightarrow> 'a list option" where
  "fulfilled_values [] = Some []"
| "fulfilled_values (Fulfilled v # ps) =
     (case fulfilled_values ps of Some vs \<Rightarrow> Some (v # vs) | None \<Rightarrow> None)"
| "fulfilled_values (p # ps) = None"

definition Promise_all :: "'a promise list \<Rightarrow> 'a list promise" where
  "Promise_all ps =
     (case first_rejection ps of
        Some e \<Rightarrow> Rejected e
      | None \<Rightarrow> (case fulfilled_values ps of Some vs \<Rightarrow> Fulfilled vs | None \<Rightarrow> Pending))"

text \<open>\<open>Promise.resolve(result)\<close> around what the called function did.\<close>

fun awaited :: "behaviour \<Rightarrow> jsval promise" where
  "awaited (Returns v) = Fulfilled v"
| "awaited (ReturnsPromise p) = p"
| "awaited (Throws e) = Rejected e"

definition TypeError :: jsexn where
  "TypeError = OtherException (JStr ''TypeError'')"

text \<open>
  \<open>f(args)\<close>: calling a value that is not a function throws a \<open>TypeError\<close>. The second
  component is the log of the calls made.
\<close>

fun callFunction :: "host \<Rightarrow> jsval \<Rightarrow> jsval list \<Rightarrow> behaviour \<times> call list" where
  "callFunction h (JFun f) args = (apply_function h f args, [Call f args])"
| "callFunction h v args = (Throws TypeError, [])"

section \<open>The single-request executor\<close>

text \<open>
  The method resolution of \<open>_handleJsonRpcRequest\<close> (from \<open>const method = ...\<close> to the
  end of the \<open>else\<close> branch): \<open>None\<close> where the source returns the \<open>METHOD_NOT_FOUND\<close>
  response, otherwise what the call did.
\<close>

definition invokeMethod :: "host \<Rightarrow> server \<Rightarrow> jsval \<Rightarrow> jsval \<Rightarrow> behaviour option \<times> call list" where
  "invokeMethod h srv request requestContext =
     (let m = lookupMethod h (methods srv) (stringValue (getProp request ''method'')) in
      if truthy m then
        (case callFunction h m [getProp request ''params'', requestContext] of
           (b, cs) \<Rightarrow> (Some b, cs))
      else if typeof (methodCallback srv) = ''function'' then
        (case callFunction h (methodCallback srv)
                [getProp request ''method'', getProp request ''params'', requestContext] of
           (b, cs) \<Rightarrow> (if b = Returns JUndefined then None else Some b, cs))
      else (None, []))"

definition notFoundMessage :: "jsval \<Rightarrow> jsval" where
  "notFoundMessage name = JStr (''Method '' @ [CHR 0x27] @ stringValue name @ [CHR 0x27] @ '' not found'')"

text \<open>
  The first \<open>then\<close> callback: what it returns or throws, the calls it made, and the value
  of the closure variable \<open>requestId\<close> when it ends (the \<open>catch\<close> callbacks read it).
\<close>

definition requestCallback :: "host \<Rightarrow> server \<Rightarrow> jsval \<Rightarrow> jsval \<Rightarrow> jsval promise \<times> call list \<times> jsval" where
  "requestCallback h srv request requestContext =
     (let errorResponse = private_validateRequest h request in
      if truthy errorResponse then (Fulfilled errorResponse, [], JNull)
      else
        let hasRequestId = hasProp request ''id'';
            requestId = (if hasRequestId then getProp request ''id'' else JNull)
        in (case invokeMethod h srv request requestContext of
              (None, cs) \<Rightarrow>
                (Fulfilled (createErrorResponse h requestId METHOD_NOT_FOUND
                              (notFoundMessage (getProp request ''method'')) JUndefined),
                 cs, requestId)
            | (Some b, cs) \<Rightarrow>
                (then_promise (awaited b)
                   (\<lambda>result. Fulfilled (if hasRequestId then createResultResponse result requestId
                                         else JNull)),
                 cs, requestId)))"

definition firstCatch :: "host \<Rightarrow> jsval \<Rightarrow> jsexn \<Rightarrow> jsval promise" where
  "firstCatch h requestId e =
     (case e of
        RequestException eo \<Rightarrow>
          if eo = JUndefined \<or> eo = JNull then Rejected TypeError
          else Fulfilled (createErrorResponse h requestId
                            (getProp eo ''code'') (getProp eo ''message'') (getProp eo ''data''))
      | OtherException x \<Rightarrow>
          Fulfilled (createErrorResponse h requestId INTERNAL_ERROR
                       (JStr ''An error occurred when handling request'') JUndefined))"

definition secondCatch :: "host \<Rightarrow> jsval \<Rightarrow> jsexn \<Rightarrow> jsval promise" where
  "secondCatch h requestId e =
     Fulfilled (createErrorResponse h requestId INTERNAL_ERROR
                  (JStr ''A critical error occurred when handling request'') JUndefined)"

definition private_handleJsonRpcRequest :: "host \<Rightarrow> server \<Rightarrow> jsval \<Rightarrow> jsval \<Rightarrow> jsval promise \<times> call list" where
  "private_handleJsonRpcRequest h srv request requestContext =
     (case requestCallback h srv request requestContext of
        (p, cs, requestId) \<Rightarrow>
          (catch_promise
             (catch_promise (then_promise (Fulfilled JUndefined) (\<lambda>u. p)) (firstCatch h requestId))
             (secondCatch h requestId),
           cs))"

section \<open>The batch orchestrator\<close>

text \<open>
  A parameter declared \<open>requestContext={}\<close> takes the empty object when the caller leaves
  the argument out or passes \<open>undefined\<close>. The batch handler and the dispatcher declare
  the parameter so; the executor does not.
\<close>

definition defaultContext :: "jsval \<Rightarrow> jsval" where
  "defaultContext given = (if given = JUndefined then JObj [] else given)"

definition private_handleJsonRpcBatchRequest :: "host \<Rightarrow> server \<Rightarrow> jsval list \<Rightarrow> jsval \<Rightarrow> jsval promise \<times> call list" where
  "private_handleJsonRpcBatchRequest h srv requests given =
     (let requestContext = defaultContext given;
          runs = map (\<lambda>request. private_handleJsonRpcRequest h srv request requestContext) requests;
          promises = map fst runs
      in (catch_promise
            (then_promise
               (then_promise (Promise_all promises)
                  (\<lambda>responses. Fulfilled (filter (\<lambda>response. response \<noteq> JNull) responses)))
               (\<lambda>responses. Fulfilled (if length responses = 0 then JNull else JArr responses)))
            (\<lambda>e. Fulfilled (createErrorResponse h JNull INTERNAL_ERROR
                              (JStr ''An error occurred when handling request'') JUndefined)),
          concat (map snd runs)))"

section \<open>The top-level dispatcher\<close>

text \<open>
  The value a \<open>catch\<close> callback receives: the thrown value, or the exception instance
  with its own enumerable properties.
\<close>

fun thrownValue :: "host \<Rightarrow> jsexn \<Rightarrow> jsval" where
  "thrownValue h (OtherException x) = x"
| "thrownValue h (RequestException eo) =
     JObj [(''errorObj'', eo), (''name'', JStr ''JsonRpcRequestError''),
           (''message'', JStr (''JsonRpcRequestError: '' @ JSON_stringify h eo))]"

definition dispatch :: "host \<Rightarrow> server \<Rightarrow> jsval \<Rightarrow> jsval \<Rightarrow> jsval promise \<times> call list" where
  "dispatch h srv request requestContext =
     (if Array_isArray request then
        (case request of
           JArr requests \<Rightarrow>
             if length requests = 0 then
               (Fulfilled (createErrorResponse h JNull INVALID_REQUEST
                             (JStr ''Invalid request, missing request object(s)'') JUndefined), [])
             else private_handleJsonRpcBatchRequest h srv requests requestContext
         | _ \<Rightarrow> private_handleJsonRpcRequest h srv request requestContext)
      else private_handleJsonRpcRequest h srv request requestContext)"

definition handleJsonRpcRequest :: "host \<Rightarrow> server \<Rightarrow> jsval \<Rightarrow> jsval \<Rightarrow> jsval promise \<times> call list" where
  "handleJsonRpcRequest h srv request given =
     (let requestContext = defaultContext given in
      case (if isString request then
              (case JSON_parse h (stringValue request) of
                 None \<Rightarrow> (Fulfilled (createParseErrorResponse h JUndefined JUndefined), [])
               | Some parsed \<Rightarrow> dispatch h srv parsed requestContext)
            else dispatch h srv request requestContext) of
        (p, cs) \<Rightarrow>
          (catch_promise (then_promise (Fulfilled JUndefined) (\<lambda>u. p))
             (\<lambda>e. Fulfilled (createErrorResponse h JNull INTERNAL_ERROR
                               (JStr ''An error occurred when processing request'') (thrownValue h e))),
           cs))"

section \<open>A host and servers for the closed examples\<close>

text \<open>
  An excerpt of a Node.js runtime, enough for the examples below: it answers as Node
  does on the inputs the examples evaluate (no example reaches \<open>JSON.stringify\<close>, a
  constant here). Function 0 is \<open>Object.prototype.toString\<close>,
  which called without a receiver returns \<open>[object Undefined]\<close>; functions 1 to 7 are
  handlers an application could register: one that returns a string, one that returns a
  promise that never settles, one that throws an \<open>Error\<close>, one that throws a
  \<open>JsonRpcRequestException\<close> built from an error object with an empty message, a
  fallback callback that knows the method \<open>hello\<close> only, one that returns \<open>null\<close>, and one
  that returns a promise fulfilled with 12. Function 8 is a fallback callback that throws
  an \<open>Error\<close>, function 9 a handler that throws a \<open>JsonRpcRequestException\<close> made
  without arguments, whose \<open>errorObj\<close> the TypeScript constructor leaves \<open>undefined\<close>,
  function 10 a handler that throws the exception made from the code \<open>INVALID_PARAMS\<close>
  and a message, as the handlers of the test suite do, function 11 a handler that returns
  the context it is called with.
  \<open>example_text\<close> is the JSON text of a call of \<open>alwaysException\<close> with the id 2.
\<close>

definition example_functions :: "nat \<Rightarrow> jsval list \<Rightarrow> behaviour" where
  "example_functions f args =
     (if f = 0 then Returns (JStr ''[object Undefined]'')
      else if f = 1 then Returns (JStr ''Hello World!'')
      else if f = 2 then ReturnsPromise Pending
      else if f = 3 then Throws (OtherException (JStr ''Error: Forced exception''))
      else if f = 4 then
        Throws (RequestException (JObj [(''code'', JNum (Fin 1)), (''message'', JStr [])]))
      else if f = 5 then
        (if hd args = JStr ''hello'' then Returns (JStr ''Hello callback World!'')
         else Returns JUndefined)
      else if f = 6 then Returns JNull
      else if f = 7 then ReturnsPromise (Fulfilled (JNum (Fin 12)))
      else if f = 8 then Throws (OtherException (JStr ''Error: callback failed''))
      else if f = 9 then Throws (RequestException JUndefined)
      else if f = 10 then
        Throws (RequestException
                  (JObj [(''code'', JNum (Fin (- 32602))), (''message'', JStr ''Invalid parameter'')]))
      else if f = 11 then (if args = [] then Returns JUndefined else Returns (last args))
      else Returns JUndefined)"

definition quoted :: "string \<Rightarrow> string" where
  "quoted s = [CHR 0x22] @ s @ [CHR 0x22]"

definition example_text :: string where
  "example_text =
     ''{'' @ quoted ''jsonrpc'' @ '':'' @ quoted ''2.0'' @ '','' @ quoted ''method'' @ '':''
     @ quoted ''alwaysException'' @ '','' @ quoted ''id'' @ '':2}''"

definition example_host :: host where
  "example_host =
     \<lparr> StringToNumber = (\<lambda>s. if s = [] then Fin 0 else NaN),
       ObjectToNumber = (\<lambda>v. if v = JArr [] then Fin 0 else NaN),
       JSON_parse =
         (\<lambda>s. if s = ''[]'' then Some (JArr [])
              else if s = example_text then
                Some (JObj [(''jsonrpc'', JStr ''2.0''), (''method'', JStr ''alwaysException''),
                            (''id'', JNum (Fin 2))])
              else None),
       JSON_stringify = (\<lambda>v. ''null''),
       Object_prototype = (\<lambda>k. if k = ''toString'' then Some (JFun 0) else None),
       apply_function = example_functions \<rparr>"

definition example_server :: server where
  "example_server =
     registerMethods new_TinyJsonRpcServer
       [(''getHelloString'', JFun 1), (''never'', JFun 2), (''alwaysException'', JFun 3),
        (''badParams'', JFun 4), (''nothing'', JFun 6), (''asyncAdd'', JFun 7),
        (''noArguments'', JFun 9), (''throwParamError'', JFun 10), (''getContext'', JFun 11)]"

definition example_request :: "string \<Rightarrow> jsval \<Rightarrow> jsval" where
  "example_request name rid =
     JObj [(''jsonrpc'', JStr ''2.0''), (''method'', JStr name), (''id'', rid)]"

definition example_notification :: "string \<Rightarrow> jsval" where
  "example_notification name = JObj [(''jsonrpc'', JStr ''2.0''), (''method'', JStr name)]"

section \<open>Notions the properties are stated with\<close>

text \<open>
  A logged call settles when the function, called with these arguments, does not return a
  promise that stays pending for ever.
\<close>

definition settles :: "host \<Rightarrow> call \<Rightarrow> bool" where
  "settles h c = (case c of Call f args \<Rightarrow> apply_function h f args \<noteq> ReturnsPromise Pending)"

text \<open>The shapes of a reply: an error object, a response, and \<open>null\<close>, a response or a
  non-empty array of responses.\<close>

definition isErrorObject :: "jsval \<Rightarrow> bool" where
  "isErrorObject v =
     (case v of
        JObj ps \<Rightarrow> map fst ps = [''code'', ''message''] \<or> map fst ps = [''code'', ''message'', ''data'']
      | _ \<Rightarrow> False)"

definition isResponse :: "jsval \<Rightarrow> bool" where
  "isResponse v =
     (case v of
        JObj ps \<Rightarrow>
          getProp v ''jsonrpc'' = JStr ''2.0'' \<and>
          (map fst ps = [''jsonrpc'', ''result'', ''id''] \<or>
           (map fst ps = [''jsonrpc'', ''error'', ''id''] \<and> isErrorObject (getProp v ''error'')))
      | _ \<Rightarrow> False)"

definition isReply :: "jsval \<Rightarrow> bool" where
  "isReply v =
     (v = JNull \<or> isResponse v \<or>
      (case v of JArr rs \<Rightarrow> rs \<noteq> [] \<and> list_all isResponse rs | _ \<Rightarrow> False))"

text \<open>The id the executor resolves for a request that passed validation.\<close>

definition resolvedId :: "jsval \<Rightarrow> jsval" where
  "resolvedId request = (if hasProp request ''id'' then getProp request ''id'' else JNull)"

text \<open>What the two \<open>catch\<close> callbacks of the executor make of a failure, taken together.\<close>

definition failureResponse :: "host \<Rightarrow> jsval \<Rightarrow> jsexn \<Rightarrow> jsval" where
  "failureResponse h rid e =
     (case e of
        RequestException eo \<Rightarrow>
          if eo = JUndefined \<or> eo = JNull then
            createErrorResponse h rid INTERNAL_ERROR
              (JStr ''A critical error occurred when handling request'') JUndefined
          else createErrorResponse h rid (getProp eo ''code'') (getProp eo ''message'') (getProp eo ''data'')
      | OtherException x \<Rightarrow>
          createErrorResponse h rid INTERNAL_ERROR
            (JStr ''An error occurred when handling request'') JUndefined)"

text \<open>
  The two \<open>INTERNAL_ERROR\<close> responses of the executor with an id, written out: the one of
  its first \<open>catch\<close> and the one of its second.
\<close>

definition handlingError :: "jsval \<Rightarrow> jsval" where
  "handlingError rid =
     JObj [(''jsonrpc'', JStr ''2.0''),
           (''error'', JObj [(''code'', JNum (Fin (- 32603))),
                             (''message'', JStr ''An error occurred when handling request'')]),
           (''id'', rid)]"

definition criticalError :: "jsval \<Rightarrow> jsval" where
  "criticalError rid =
     JObj [(''jsonrpc'', JStr ''2.0''),
           (''error'', JObj [(''code'', JNum (Fin (- 32603))),
                             (''message'', JStr ''A critical error occurred when handling request'')]),
           (''id'', rid)]"

text \<open>The value the dispatcher works on: the given text parsed, or the given value.\<close>

definition parsedRequest :: "host \<Rightarrow> jsval \<Rightarrow> jsval option" where
  "parsedRequest h request =
     (if isString request then JSON_parse h (stringValue request) else Some request)"

text \<open>
  The handler that answers a request, in the words of the specification, and the promise
  of its result: the function the registry owns under the method name, called with the
  params and the context; or, when the registry does not own the name and
  \<open>Object.prototype\<close> has no property of that name, the fallback callback, called with
  the method, the params and the context, unless it returns \<open>undefined\<close>. \<open>None\<close> when
  there is no such handler. A request succeeds when it passes validation and that promise
  is fulfilled, with the value \<open>resultOf\<close> names. A notification is a request without an
  \<open>id\<close> property.
\<close>

definition handlerPromise :: "host \<Rightarrow> server \<Rightarrow> jsval \<Rightarrow> jsval \<Rightarrow> jsval promise option" where
  "handlerPromise h srv ctx request =
     (case map_of (methods srv) (stringValue (getProp request ''method'')) of
        Some m \<Rightarrow>
          (case m of
             JFun f \<Rightarrow> Some (awaited (apply_function h f [getProp request ''params'', ctx]))
           | _ \<Rightarrow> None)
      | None \<Rightarrow>
          (case Object_prototype h (stringValue (getProp request ''method'')) of
             Some inherited \<Rightarrow> None
           | None \<Rightarrow>
               (case methodCallback srv of
                  JFun cb \<Rightarrow>
                    if apply_function h cb
                         [getProp request ''method'', getProp request ''params'', ctx]
                       = Returns JUndefined
                    then None
                    else Some (awaited (apply_function h cb
                                 [getProp request ''method'', getProp request ''params'', ctx]))
                | _ \<Rightarrow> None)))"

definition succeeds :: "host \<Rightarrow> server \<Rightarrow> jsval \<Rightarrow> jsval \<Rightarrow> bool" where
  "succeeds h srv ctx request =
     (private_validateRequest h request = JNull \<and>
      (case handlerPromise h srv ctx request of
         Some p \<Rightarrow> (case p of Fulfilled v \<Rightarrow> True | _ \<Rightarrow> False)
       | None \<Rightarrow> False))"

definition resultOf :: "host \<Rightarrow> server \<Rightarrow> jsval \<Rightarrow> jsval \<Rightarrow> jsval" where
  "resultOf h srv ctx request =
     (case handlerPromise h srv ctx request of
        Some p \<Rightarrow> (case p of Fulfilled v \<Rightarrow> v | _ \<Rightarrow> JUndefined)
      | None \<Rightarrow> JUndefined)"

definition isNotification :: "jsval \<Rightarrow> bool" where
  "isNotification request = (\<not> hasProp request ''id'')"

text \<open>
  The specification's wording for the error code that \<open>createErrorObject\<close> keeps, "a valid
  integer-like number": a finite number whose value is an integer.
\<close>

definition isIntegerLike :: "jsval \<Rightarrow> bool" where
  "isIntegerLike v = (case v of JNum (Fin r) \<Rightarrow> of_int (floor r) = r | _ \<Rightarrow> False)"

text \<open>The \<open>INVALID_REQUEST\<close> response with a message and an id, written out.\<close>

definition invalidRequest :: "string \<Rightarrow> jsval \<Rightarrow> jsval" where
  "invalidRequest msg rid =
     JObj [(''jsonrpc'', JStr ''2.0''),
           (''error'', JObj [(''code'', JNum (Fin (- 32600))), (''message'', JStr msg)]),
           (''id'', rid)]"

section \<open>Auxiliary facts\<close>

lemmas model_defs =
  handleJsonRpcRequest_def dispatch_def private_handleJsonRpcBatchRequest_def
  private_handleJsonRpcRequest_def requestCallback_def firstCatch_def secondCatch_def
  invokeMethod_def lookupMethod_def notFoundMessage_def TypeError_def
  private_validateRequest_def validId_def validParams_def isNumeric_def isFinite_def isString_def
  createErrorResponse_def createErrorObject_def createParseErrorResponse_def createResultResponse_def
  then_promise_def catch_promise_def Promise_all_def
  PARSE_ERROR_def INVALID_REQUEST_def METHOD_NOT_FOUND_def INVALID_PARAMS_def INTERNAL_ERROR_def Let_def
  defaultContext_def

lemmas example_defs =
  example_host_def example_functions_def example_server_def example_request_def
  example_notification_def registerMethods_def registerMethodCallback_def new_TinyJsonRpcServer_def
  example_text_def quoted_def

lemma isNumeric_JNum: "isNumeric h (JNum n) = (case n of Fin r \<Rightarrow> True | _ \<Rightarrow> False)"
  by (cases n) (simp_all add: isNumeric_def isFinite_def)

lemma isNumeric_codes:
  "isNumeric h PARSE_ERROR" "isNumeric h INVALID_REQUEST" "isNumeric h METHOD_NOT_FOUND"
  "isNumeric h INVALID_PARAMS" "isNumeric h INTERNAL_ERROR"
  by (simp_all add: isNumeric_JNum PARSE_ERROR_def INVALID_REQUEST_def METHOD_NOT_FOUND_def
        INVALID_PARAMS_def INTERNAL_ERROR_def)

lemma truthy_createErrorResponse: "truthy (createErrorResponse h rid code message dat)"
  by (simp add: createErrorResponse_def)

lemma createErrorResponse_not_null: "createErrorResponse h rid code message dat \<noteq> JNull"
  by (simp add: createErrorResponse_def)

lemma createErrorResponse_id:
  "rid \<noteq> JUndefined \<Longrightarrow>
   createErrorResponse h rid code message dat =
     JObj [(''jsonrpc'', JStr ''2.0''), (''error'', createErrorObject h code message dat), (''id'', rid)]"
  by (simp add: createErrorResponse_def)

lemma createErrorObject_again:
  "createErrorObject h (getProp (createErrorObject h code message dat) ''code'')
                       (getProp (createErrorObject h code message dat) ''message'')
                       (getProp (createErrorObject h code message dat) ''data'')
   = createErrorObject h code message dat"
  by (simp add: createErrorObject_def isNumeric_codes)

lemma internal_error_object:
  "createErrorObject h INTERNAL_ERROR (JStr (c # cs)) JUndefined =
     JObj [(''code'', JNum (Fin (- 32603))), (''message'', JStr (c # cs))]"
  by (simp add: createErrorObject_def isNumeric_codes) (simp add: INTERNAL_ERROR_def)

lemma validate_truthy_iff:
  "truthy (private_validateRequest h request) = (private_validateRequest h request \<noteq> JNull)"
  by (simp add: private_validateRequest_def Let_def truthy_createErrorResponse createErrorResponse_not_null)

lemma validate_shape:
  "private_validateRequest h request = JNull \<or>
   (\<exists>rid m. private_validateRequest h request =
              createErrorResponse h rid INVALID_REQUEST (JStr m) JUndefined)"
  unfolding private_validateRequest_def Let_def by (simp; blast)

lemma validId_not_undefined: "validId h v \<Longrightarrow> v \<noteq> JUndefined"
  by (auto simp: validId_def isNumeric_def isString_def)

lemma valid_resolvedId:
  assumes "private_validateRequest h request = JNull"
  shows "resolvedId request \<noteq> JUndefined"
proof (cases "hasProp request ''id''")
  case True
  with assms have "validId h (getProp request ''id'')"
    by (simp add: private_validateRequest_def Let_def createErrorResponse_not_null split: if_splits)
  with True show ?thesis by (auto simp: resolvedId_def dest: validId_not_undefined)
next
  case False
  then show ?thesis by (simp add: resolvedId_def)
qed

lemma then_promise_simps:
  "then_promise (Fulfilled v) f = f v"
  "then_promise (Rejected e) f = Rejected e"
  "then_promise Pending f = Pending"
  by (simp_all add: then_promise_def)

lemma catch_promise_simps:
  "catch_promise (Fulfilled v) f = Fulfilled v"
  "catch_promise (Rejected e) f = f e"
  "catch_promise Pending f = Pending"
  by (simp_all add: catch_promise_def)

lemma catch_not_rejected: "(\<And>e. p \<noteq> Rejected e) \<Longrightarrow> catch_promise p f = p"
  by (cases p) (auto simp: catch_promise_def)

lemma both_catches:
  "catch_promise (firstCatch h rid e) (secondCatch h rid) = Fulfilled (failureResponse h rid e)"
  by (cases e)
     (simp_all add: firstCatch_def secondCatch_def failureResponse_def catch_promise_simps TypeError_def)

subsection \<open>The executor, case by case\<close>

lemma executor_invalid:
  assumes "private_validateRequest h request \<noteq> JNull"
  shows "private_handleJsonRpcRequest h srv request ctx = (Fulfilled (private_validateRequest h request), [])"
  using assms
  by (simp add: private_handleJsonRpcRequest_def requestCallback_def validate_truthy_iff
        then_promise_simps catch_promise_simps)

lemma executor_not_found:
  assumes "private_validateRequest h request = JNull"
      and "invokeMethod h srv request ctx = (None, cs)"
  shows "private_handleJsonRpcRequest h srv request ctx =
           (Fulfilled (createErrorResponse h (resolvedId request) METHOD_NOT_FOUND
                         (notFoundMessage (getProp request ''method'')) JUndefined), cs)"
  using assms
  by (simp add: private_handleJsonRpcRequest_def requestCallback_def resolvedId_def Let_def
        then_promise_simps catch_promise_simps)

lemma executor_invoked:
  assumes "private_validateRequest h request = JNull"
      and "invokeMethod h srv request ctx = (Some b, cs)"
  shows "private_handleJsonRpcRequest h srv request ctx =
           ((case awaited b of
               Fulfilled v \<Rightarrow>
                 Fulfilled (if hasProp request ''id''
                            then createResultResponse v (getProp request ''id'') else JNull)
             | Rejected e \<Rightarrow> Fulfilled (failureResponse h (resolvedId request) e)
             | Pending \<Rightarrow> Pending), cs)"
proof (cases "awaited b")
  case (Fulfilled v)
  with assms show ?thesis
    by (simp add: private_handleJsonRpcRequest_def requestCallback_def resolvedId_def Let_def
          then_promise_simps catch_promise_simps)
next
  case (Rejected e)
  with assms show ?thesis
    by (simp add: private_handleJsonRpcRequest_def requestCallback_def resolvedId_def Let_def
          then_promise_simps catch_promise_simps both_catches)
next
  case Pending
  with assms show ?thesis
    by (simp add: private_handleJsonRpcRequest_def requestCallback_def resolvedId_def Let_def
          then_promise_simps catch_promise_simps)
qed

lemma executor_success:
  assumes "private_validateRequest h request = JNull"
      and "fst (invokeMethod h srv request ctx) = Some b"
      and "awaited b = Fulfilled v"
  shows "fst (private_handleJsonRpcRequest h srv request ctx) =
           Fulfilled (if hasProp request ''id''
                      then createResultResponse v (getProp request ''id'') else JNull)"
proof -
  obtain cs where "invokeMethod h srv request ctx = (Some b, cs)"
    using assms(2) by (cases "invokeMethod h srv request ctx") auto
  with assms show ?thesis by (simp add: executor_invoked)
qed

lemma executor_failure:
  assumes "private_validateRequest h request = JNull"
      and "fst (invokeMethod h srv request ctx) = Some b"
      and "awaited b = Rejected e"
  shows "fst (private_handleJsonRpcRequest h srv request ctx) =
           Fulfilled (failureResponse h (resolvedId request) e)"
proof -
  obtain cs where "invokeMethod h srv request ctx = (Some b, cs)"
    using assms(2) by (cases "invokeMethod h srv request ctx") auto
  with assms show ?thesis by (simp add: executor_invoked)
qed

text \<open>The handler of the specification is the one the executor calls.\<close>

lemma handlerPromise_registered:
  "map_of (methods srv) (stringValue (getProp request ''method'')) = Some (JFun f) \<Longrightarrow>
   handlerPromise h srv ctx request =
     Some (awaited (apply_function h f [getProp request ''params'', ctx]))"
  by (simp add: handlerPromise_def)

lemma handlerPromise_fallback:
  "map_of (methods srv) (stringValue (getProp request ''method'')) = None \<Longrightarrow>
   Object_prototype h (stringValue (getProp request ''method'')) = None \<Longrightarrow>
   methodCallback srv = JFun cb \<Longrightarrow>
   apply_function h cb [getProp request ''method'', getProp request ''params'', ctx]
     \<noteq> Returns JUndefined \<Longrightarrow>
   handlerPromise h srv ctx request =
     Some (awaited (apply_function h cb
             [getProp request ''method'', getProp request ''params'', ctx]))"
  by (simp add: handlerPromise_def)

lemma handlerPromise_invoke:
  assumes "handlerPromise h srv ctx request = Some p"
  shows "\<exists>b. fst (invokeMethod h srv request ctx) = Some b \<and> awaited b = p"
proof (cases "map_of (methods srv) (stringValue (getProp request ''method''))")
  case (Some m)
  with assms obtain f where m: "m = JFun f"
      and p: "p = awaited (apply_function h f [getProp request ''params'', ctx])"
    by (cases m) (auto simp: handlerPromise_def)
  from Some m have "fst (invokeMethod h srv request ctx)
      = Some (apply_function h f [getProp request ''params'', ctx])"
    by (simp add: invokeMethod_def lookupMethod_def)
  with p show ?thesis by simp
next
  case None
  with assms have proto: "Object_prototype h (stringValue (getProp request ''method'')) = None"
    by (auto simp: handlerPromise_def split: option.splits)
  with None assms obtain cb where cb: "methodCallback srv = JFun cb"
      and nu: "apply_function h cb [getProp request ''method'', getProp request ''params'', ctx]
                 \<noteq> Returns JUndefined"
      and p: "p = awaited (apply_function h cb
                 [getProp request ''method'', getProp request ''params'', ctx])"
    by (cases "methodCallback srv") (auto simp: handlerPromise_def split: if_splits)
  from None proto cb nu have "fst (invokeMethod h srv request ctx)
      = Some (apply_function h cb [getProp request ''method'', getProp request ''params'', ctx])"
    by (simp add: invokeMethod_def lookupMethod_def)
  with p show ?thesis by simp
qed

lemma executor_handler_fulfilled:
  assumes "private_validateRequest h request = JNull"
      and "handlerPromise h srv ctx request = Some (Fulfilled v)"
  shows "fst (private_handleJsonRpcRequest h srv request ctx) =
           Fulfilled (if hasProp request ''id''
                      then createResultResponse v (getProp request ''id'') else JNull)"
proof -
  from handlerPromise_invoke [OF assms(2)] obtain b
    where "fst (invokeMethod h srv request ctx) = Some b" "awaited b = Fulfilled v" by blast
  with assms(1) show ?thesis by (rule executor_success)
qed

lemma executor_handler_rejected:
  assumes "private_validateRequest h request = JNull"
      and "handlerPromise h srv ctx request = Some (Rejected e)"
  shows "fst (private_handleJsonRpcRequest h srv request ctx) =
           Fulfilled (failureResponse h (resolvedId request) e)"
proof -
  from handlerPromise_invoke [OF assms(2)] obtain b
    where "fst (invokeMethod h srv request ctx) = Some b" "awaited b = Rejected e" by blast
  with assms(1) show ?thesis by (rule executor_failure)
qed

text \<open>A handler that fails is a handler: a failing fallback did not return \<open>undefined\<close>.\<close>

lemma handler_fails:
  assumes "(map_of (methods srv) (stringValue (getProp request ''method'')) = Some (JFun f)
            \<and> awaited (apply_function h f [getProp request ''params'', ctx]) = Rejected e)
         \<or> (map_of (methods srv) (stringValue (getProp request ''method'')) = None
            \<and> Object_prototype h (stringValue (getProp request ''method'')) = None
            \<and> methodCallback srv = JFun cb
            \<and> awaited (apply_function h cb
                  [getProp request ''method'', getProp request ''params'', ctx]) = Rejected e)"
  shows "handlerPromise h srv ctx request = Some (Rejected e)"
  using assms
proof
  assume "map_of (methods srv) (stringValue (getProp request ''method'')) = Some (JFun f)
            \<and> awaited (apply_function h f [getProp request ''params'', ctx]) = Rejected e"
  then show ?thesis by (simp add: handlerPromise_registered)
next
  assume a: "map_of (methods srv) (stringValue (getProp request ''method'')) = None
            \<and> Object_prototype h (stringValue (getProp request ''method'')) = None
            \<and> methodCallback srv = JFun cb
            \<and> awaited (apply_function h cb
                  [getProp request ''method'', getProp request ''params'', ctx]) = Rejected e"
  then have "apply_function h cb [getProp request ''method'', getProp request ''params'', ctx]
               \<noteq> Returns JUndefined"
    by auto
  with a show ?thesis by (simp add: handlerPromise_fallback)
qed

lemma succeeds_executor:
  assumes "succeeds h srv ctx request"
  shows "fst (private_handleJsonRpcRequest h srv request ctx) =
           Fulfilled (if hasProp request ''id''
                      then createResultResponse (resultOf h srv ctx request) (getProp request ''id'')
                      else JNull)"
proof -
  from assms obtain v where "private_validateRequest h request = JNull"
      "handlerPromise h srv ctx request = Some (Fulfilled v)"
    by (auto simp: succeeds_def split: option.splits promise.splits)
  then show ?thesis
    using executor_handler_fulfilled [of h request srv ctx v] by (simp add: resultOf_def)
qed

lemma failure_handling:
  "rid \<noteq> JUndefined \<Longrightarrow> failureResponse h rid (OtherException x) = handlingError rid"
  by (simp add: failureResponse_def createErrorResponse_id internal_error_object handlingError_def)

lemma failure_critical:
  "rid \<noteq> JUndefined \<Longrightarrow> eo = JUndefined \<or> eo = JNull \<Longrightarrow>
   failureResponse h rid (RequestException eo) = criticalError rid"
  by (auto simp: failureResponse_def createErrorResponse_id internal_error_object criticalError_def)

subsection \<open>Replies have the shape of a response\<close>

lemma isResponse_error: "isResponse (createErrorResponse h rid code message dat)"
  by (simp add: isResponse_def createErrorResponse_def createErrorObject_def isErrorObject_def)

lemma isResponse_result: "isResponse (createResultResponse v rid)"
  by (simp add: isResponse_def createResultResponse_def)

lemma validate_response:
  "private_validateRequest h request \<noteq> JNull \<Longrightarrow> isResponse (private_validateRequest h request)"
  using validate_shape [of h request] by (auto simp: isResponse_error)

lemma isResponse_failure: "isResponse (failureResponse h rid e)"
  by (cases e) (simp_all add: failureResponse_def isResponse_error)

subsection \<open>A pending executor has a pending call in its log\<close>

lemma callFunction_log:
  "callFunction h m args = (b, cs) \<Longrightarrow> list_all (settles h) cs \<Longrightarrow> b \<noteq> ReturnsPromise Pending"
  by (cases m) (auto simp: settles_def)

lemma invokeMethod_log:
  assumes "invokeMethod h srv request ctx = (Some b, cs)" and "list_all (settles h) cs"
  shows "awaited b \<noteq> Pending"
proof -
  from assms have "b \<noteq> ReturnsPromise Pending"
    by (auto simp: invokeMethod_def Let_def split: if_splits prod.splits dest: callFunction_log)
  then show ?thesis by (cases b) auto
qed

lemma executor_cases:
  "(\<exists>v. fst (private_handleJsonRpcRequest h srv request ctx) = Fulfilled v \<and> (v = JNull \<or> isResponse v))
   \<or> (fst (private_handleJsonRpcRequest h srv request ctx) = Pending
        \<and> \<not> list_all (settles h) (snd (private_handleJsonRpcRequest h srv request ctx)))"
proof (cases "private_validateRequest h request = JNull")
  case False
  then show ?thesis by (simp add: executor_invalid validate_response)
next
  case True
  obtain r cs where inv: "invokeMethod h srv request ctx = (r, cs)"
    by (cases "invokeMethod h srv request ctx")
  show ?thesis
  proof (cases r)
    case None
    with True inv show ?thesis by (simp add: executor_not_found isResponse_error)
  next
    case (Some b)
    with True inv have ex: "private_handleJsonRpcRequest h srv request ctx =
           ((case awaited b of
               Fulfilled v \<Rightarrow>
                 Fulfilled (if hasProp request ''id''
                            then createResultResponse v (getProp request ''id'') else JNull)
             | Rejected e \<Rightarrow> Fulfilled (failureResponse h (resolvedId request) e)
             | Pending \<Rightarrow> Pending), cs)"
      by (simp add: executor_invoked)
    show ?thesis
    proof (cases "awaited b")
      case (Fulfilled v)
      with ex show ?thesis by (simp add: isResponse_result)
    next
      case (Rejected e)
      with ex show ?thesis by (simp add: isResponse_failure)
    next
      case Pending
      with inv Some have "\<not> list_all (settles h) cs" using invokeMethod_log by blast
      with ex Pending show ?thesis by simp
    qed
  qed
qed

lemma executor_never_rejects: "fst (private_handleJsonRpcRequest h srv request ctx) \<noteq> Rejected e"
  using executor_cases [of h srv request ctx] by auto

lemma executor_settles:
  "list_all (settles h) (snd (private_handleJsonRpcRequest h srv request ctx)) \<Longrightarrow>
   \<exists>v. fst (private_handleJsonRpcRequest h srv request ctx) = Fulfilled v \<and> (v = JNull \<or> isResponse v)"
  using executor_cases [of h srv request ctx] by auto

subsection \<open>The batch and the dispatcher\<close>

lemma defaultContext_again: "defaultContext (defaultContext ctx) = defaultContext ctx"
  by (simp add: defaultContext_def)

lemma first_rejection_None: "(\<And>p e. p \<in> set ps \<Longrightarrow> p \<noteq> Rejected e) \<Longrightarrow> first_rejection ps = None"
proof (induction ps)
  case Nil
  then show ?case by simp
next
  case (Cons p ps)
  then show ?case by (cases p) auto
qed

lemma fulfilled_values_map: "fulfilled_values (map Fulfilled vs) = Some vs"
  by (induction vs) auto

lemma first_rejection_map: "first_rejection (map Fulfilled vs) = None"
  by (induction vs) auto

lemma Promise_all_fulfilled: "Promise_all (map Fulfilled vs) = Fulfilled vs"
  by (simp add: Promise_all_def fulfilled_values_map first_rejection_map)

lemma all_fulfilled:
  assumes "\<And>x. x \<in> set xs \<Longrightarrow> \<exists>v. f x = Fulfilled v \<and> P v"
  shows "\<exists>vs. map f xs = map Fulfilled vs \<and> list_all P vs"
  using assms
proof (induction xs)
  case Nil
  then show ?case by simp
next
  case (Cons x xs)
  then obtain vs where vs: "map f xs = map Fulfilled vs" "list_all P vs" by auto
  from Cons.prems obtain v where v: "f x = Fulfilled v" "P v" by auto
  have "map f (x # xs) = map Fulfilled (v # vs) \<and> list_all P (v # vs)"
    using v vs by simp
  then show ?case by blast
qed

lemma batch_fulfilled:
  assumes "map (\<lambda>request. fst (private_handleJsonRpcRequest h srv request (defaultContext ctx))) requests
             = map Fulfilled vs"
  shows "fst (private_handleJsonRpcBatchRequest h srv requests ctx) =
           Fulfilled (if filter (\<lambda>response. response \<noteq> JNull) vs = [] then JNull
                      else JArr (filter (\<lambda>response. response \<noteq> JNull) vs))"
proof -
  have "map fst (map (\<lambda>request. private_handleJsonRpcRequest h srv request (defaultContext ctx)) requests)
          = map Fulfilled vs"
    using assms by (simp add: comp_def)
  then show ?thesis
    by (simp add: private_handleJsonRpcBatchRequest_def Let_def Promise_all_fulfilled
          then_promise_simps catch_promise_simps)
qed

lemma batch_never_rejects: "fst (private_handleJsonRpcBatchRequest h srv requests ctx) \<noteq> Rejected e"
  by (simp add: private_handleJsonRpcBatchRequest_def Let_def catch_promise_def split: promise.splits)

lemma batch_all_fulfilled:
  assumes "list_all (settles h) (snd (private_handleJsonRpcBatchRequest h srv requests ctx))"
  shows "\<exists>vs. map (\<lambda>request. fst (private_handleJsonRpcRequest h srv request (defaultContext ctx))) requests
                 = map Fulfilled vs
              \<and> list_all (\<lambda>v. v = JNull \<or> isResponse v) vs"
proof -
  have each: "\<And>request. request \<in> set requests \<Longrightarrow>
      \<exists>v. fst (private_handleJsonRpcRequest h srv request (defaultContext ctx)) = Fulfilled v
          \<and> (v = JNull \<or> isResponse v)"
  proof -
    fix request assume "request \<in> set requests"
    with assms have "list_all (settles h)
        (snd (private_handleJsonRpcRequest h srv request (defaultContext ctx)))"
      by (auto simp: private_handleJsonRpcBatchRequest_def Let_def list_all_iff)
    then show "\<exists>v. fst (private_handleJsonRpcRequest h srv request (defaultContext ctx)) = Fulfilled v
          \<and> (v = JNull \<or> isResponse v)"
      by (rule executor_settles)
  qed
  from all_fulfilled [of requests
        "\<lambda>request. fst (private_handleJsonRpcRequest h srv request (defaultContext ctx))"
        "\<lambda>v. v = JNull \<or> isResponse v", OF each]
  show ?thesis .
qed

lemma batch_settles:
  assumes "list_all (settles h) (snd (private_handleJsonRpcBatchRequest h srv requests ctx))"
  shows "\<exists>v. fst (private_handleJsonRpcBatchRequest h srv requests ctx) = Fulfilled v \<and> isReply v"
proof -
  from batch_all_fulfilled [OF assms]
  obtain vs where vs: "map (\<lambda>request. fst (private_handleJsonRpcRequest h srv request (defaultContext ctx))) requests
        = map Fulfilled vs"
      "list_all (\<lambda>v. v = JNull \<or> isResponse v) vs" by blast
  have "list_all isResponse (filter (\<lambda>response. response \<noteq> JNull) vs)"
    using vs(2) by (auto simp: list_all_iff)
  then have "isReply (if filter (\<lambda>response. response \<noteq> JNull) vs = [] then JNull
                      else JArr (filter (\<lambda>response. response \<noteq> JNull) vs))"
    by (simp add: isReply_def)
  with batch_fulfilled [OF vs(1)] show ?thesis by simp
qed

text \<open>The response of an entry that is not \<open>null\<close> is an element of the batch's array.\<close>

lemma batch_member:
  assumes "list_all (settles h) (snd (private_handleJsonRpcBatchRequest h srv requests ctx))"
      and "r \<in> set requests"
      and "fst (private_handleJsonRpcRequest h srv r (defaultContext ctx)) = Fulfilled v"
      and "v \<noteq> JNull"
  shows "\<exists>rs. fst (private_handleJsonRpcBatchRequest h srv requests ctx) = Fulfilled (JArr rs)
              \<and> v \<in> set rs"
proof -
  from batch_all_fulfilled [OF assms(1)]
  obtain vs where vs: "map (\<lambda>request. fst (private_handleJsonRpcRequest h srv request (defaultContext ctx))) requests
        = map Fulfilled vs" by blast
  from assms(2) have "fst (private_handleJsonRpcRequest h srv r (defaultContext ctx))
      \<in> set (map (\<lambda>request. fst (private_handleJsonRpcRequest h srv request (defaultContext ctx))) requests)"
    by simp
  with vs assms(3) have "Fulfilled v \<in> set (map Fulfilled vs)" by simp
  then have "v \<in> set vs" by auto
  with assms(4) have m: "v \<in> set (filter (\<lambda>response. response \<noteq> JNull) vs)" by simp
  from \<open>v \<in> set vs\<close> assms(4) have "filter (\<lambda>response. response \<noteq> JNull) vs \<noteq> []"
    by (auto simp: filter_empty_conv)
  with batch_fulfilled [OF vs] m show ?thesis by auto
qed

lemma filter_responses:
  "filter (\<lambda>response. response \<noteq> JNull)
     (map (\<lambda>request. if hasProp request ''id''
                      then createResultResponse (f request) (getProp request ''id'') else JNull) requests)
   = map (\<lambda>request. createResultResponse (f request) (getProp request ''id''))
       (filter (\<lambda>request. \<not> isNotification request) requests)"
  by (induction requests) (simp_all add: isNotification_def createResultResponse_def)

lemma all_notifications:
  "(length (filter isNotification requests) = length requests) =
   (filter (\<lambda>request. \<not> isNotification request) requests = [])"
  using sum_length_filter_compl [of isNotification requests] by auto

lemma count_with_id:
  "length (filter (\<lambda>request. \<not> isNotification request) requests) =
   length requests - length (filter isNotification requests)"
  using sum_length_filter_compl [of isNotification requests] by auto

lemma dispatch_single:
  "\<not> Array_isArray request \<Longrightarrow>
   dispatch h srv request ctx = private_handleJsonRpcRequest h srv request ctx"
  by (simp add: dispatch_def)

lemma dispatch_batch:
  "requests \<noteq> [] \<Longrightarrow>
   dispatch h srv (JArr requests) ctx = private_handleJsonRpcBatchRequest h srv requests ctx"
  by (simp add: dispatch_def)

lemma dispatch_never_rejects: "fst (dispatch h srv request ctx) \<noteq> Rejected e"
  by (cases request) (simp_all add: dispatch_def executor_never_rejects batch_never_rejects)

lemma dispatch_settles:
  assumes "list_all (settles h) (snd (dispatch h srv request ctx))"
  shows "\<exists>v. fst (dispatch h srv request ctx) = Fulfilled v \<and> isReply v"
proof (cases "\<exists>requests. request = JArr requests")
  case True
  then obtain requests where r: "request = JArr requests" by blast
  show ?thesis
  proof (cases "requests = []")
    case True
    with r show ?thesis by (simp add: dispatch_def isReply_def isResponse_error)
  next
    case False
    with r assms show ?thesis by (simp add: dispatch_def batch_settles)
  qed
next
  case False
  then have d: "dispatch h srv request ctx = private_handleJsonRpcRequest h srv request ctx"
    by (cases request) (simp_all add: dispatch_def)
  with assms executor_settles [of h srv request ctx] show ?thesis
    by (auto simp: isReply_def)
qed

text \<open>The last \<open>catch\<close> of the dispatcher never runs: nothing below it rejects.\<close>

lemma handle_unfold:
  "handleJsonRpcRequest h srv request ctx =
     (if isString request then
        (case JSON_parse h (stringValue request) of
           None \<Rightarrow> (Fulfilled (createParseErrorResponse h JUndefined JUndefined), [])
         | Some parsed \<Rightarrow> dispatch h srv parsed (defaultContext ctx))
      else dispatch h srv request (defaultContext ctx))"
proof -
  have c: "\<And>r c f. (case dispatch h srv r c of (p, cs) \<Rightarrow> (catch_promise p f, cs)) = dispatch h srv r c"
  proof -
    fix r c f
    obtain p cs where d: "dispatch h srv r c = (p, cs)" by (cases "dispatch h srv r c")
    then have "\<And>e. p \<noteq> Rejected e" using dispatch_never_rejects [of h srv r c] by simp
    then have "catch_promise p f = p" by (rule catch_not_rejected)
    with d show "(case dispatch h srv r c of (p, cs) \<Rightarrow> (catch_promise p f, cs)) = dispatch h srv r c"
      by simp
  qed
  show ?thesis
    by (simp add: handleJsonRpcRequest_def Let_def then_promise_simps catch_promise_simps c
          split: option.splits)
qed

lemma handle_parsed:
  "parsedRequest h request = Some parsed \<Longrightarrow>
   handleJsonRpcRequest h srv request ctx = dispatch h srv parsed (defaultContext ctx)"
  by (auto simp: handle_unfold parsedRequest_def split: if_splits)

lemma handle_single:
  "parsedRequest h request = Some parsed \<Longrightarrow> \<not> Array_isArray parsed \<Longrightarrow>
   handleJsonRpcRequest h srv request ctx
     = private_handleJsonRpcRequest h srv parsed (defaultContext ctx)"
  by (simp add: handle_parsed dispatch_single)

lemma handle_batch:
  "parsedRequest h request = Some (JArr requests) \<Longrightarrow> requests \<noteq> [] \<Longrightarrow>
   handleJsonRpcRequest h srv request ctx
     = private_handleJsonRpcBatchRequest h srv requests (defaultContext ctx)"
  by (simp add: handle_parsed dispatch_batch)

lemma invalid_request_response:
  "msg \<noteq> [] \<Longrightarrow> rid \<noteq> JUndefined \<Longrightarrow>
   createErrorResponse h rid INVALID_REQUEST (JStr msg) JUndefined = invalidRequest msg rid"
  by (simp add: createErrorResponse_def createErrorObject_def isNumeric_codes invalidRequest_def)
     (simp add: INVALID_REQUEST_def)

text \<open>A handler that fails with a fault of another kind, at the executor and in a batch.\<close>

lemma executor_fault:
  assumes "private_validateRequest h request = JNull"
      and "(map_of (methods srv) (stringValue (getProp request ''method'')) = Some (JFun f)
            \<and> awaited (apply_function h f [getProp request ''params'', ctx])
                = Rejected (OtherException x))
         \<or> (map_of (methods srv) (stringValue (getProp request ''method'')) = None
            \<and> Object_prototype h (stringValue (getProp request ''method'')) = None
            \<and> methodCallback srv = JFun cb
            \<and> awaited (apply_function h cb
                  [getProp request ''method'', getProp request ''params'', ctx])
                = Rejected (OtherException x))"
  shows "fst (private_handleJsonRpcRequest h srv request ctx) = Fulfilled (handlingError (resolvedId request))"
  using executor_handler_rejected [OF assms(1) handler_fails [OF assms(2)]]
        valid_resolvedId [OF assms(1)]
  by (simp add: failure_handling)

section \<open>The claims\<close>

text \<open>
  Claim C1, as amended. Whatever the input (text, a single value of any shape, an
  array) and whatever the registered handlers and the fallback do, the promise that
  \<open>handleJsonRpcRequest\<close> returns never rejects. It resolves, to \<open>null\<close>, a response or a
  non-empty array of responses, provided that every call the dispatcher made settles:
  the handler returned a value, threw, or returned a promise that is fulfilled or
  rejected at some time. The dispatcher has no timeout, so a handler whose promise stays
  pending keeps the returned promise pending. An unexpected fault (a handler or the
  fallback throws, or its promise rejects with, something that is not a
  \<open>JsonRpcRequestException\<close>) is seen as a response with the error code -32603 and
  the id of its request: for a single request, given as a value or as text, that response
  is the reply; for an entry of a batch, given as an array or as text, it is an element
  of the reply when every call of the batch settles. Handlers are called with the
  context the caller gave, or with the empty object when the caller gave none.
\<close>

theorem dispatcher_never_rejects:
  "(\<forall>e. fst (handleJsonRpcRequest h srv request ctx) \<noteq> Rejected e)
   \<and> (list_all (settles h) (snd (handleJsonRpcRequest h srv request ctx)) \<longrightarrow>
        (\<exists>v. fst (handleJsonRpcRequest h srv request ctx) = Fulfilled v \<and> isReply v))
   \<and> (\<forall>parsed f cb x.
          parsedRequest h request = Some parsed \<and> \<not> Array_isArray parsed
          \<and> private_validateRequest h parsed = JNull
          \<and> ((map_of (methods srv) (stringValue (getProp parsed ''method'')) = Some (JFun f)
               \<and> awaited (apply_function h f [getProp parsed ''params'', defaultContext ctx])
                   = Rejected (OtherException x))
              \<or> (map_of (methods srv) (stringValue (getProp parsed ''method'')) = None
                  \<and> Object_prototype h (stringValue (getProp parsed ''method'')) = None
                  \<and> methodCallback srv = JFun cb
                  \<and> awaited (apply_function h cb
                        [getProp parsed ''method'', getProp parsed ''params'', defaultContext ctx])
                      = Rejected (OtherException x))) \<longrightarrow>
          fst (handleJsonRpcRequest h srv request ctx)
            = Fulfilled (handlingError (resolvedId parsed)))
   \<and> (\<forall>requests r f cb x.
          parsedRequest h request = Some (JArr requests) \<and> r \<in> set requests
          \<and> private_validateRequest h r = JNull
          \<and> ((map_of (methods srv) (stringValue (getProp r ''method'')) = Some (JFun f)
               \<and> awaited (apply_function h f [getProp r ''params'', defaultContext ctx])
                   = Rejected (OtherException x))
              \<or> (map_of (methods srv) (stringValue (getProp r ''method'')) = None
                  \<and> Object_prototype h (stringValue (getProp r ''method'')) = None
                  \<and> methodCallback srv = JFun cb
                  \<and> awaited (apply_function h cb
                        [getProp r ''method'', getProp r ''params'', defaultContext ctx])
                      = Rejected (OtherException x)))
          \<and> list_all (settles h) (snd (handleJsonRpcRequest h srv request ctx)) \<longrightarrow>
          (\<exists>rs. fst (handleJsonRpcRequest h srv request ctx) = Fulfilled (JArr rs)
                \<and> handlingError (resolvedId r) \<in> set rs))"
proof -
  have parse: "isReply (createParseErrorResponse h JUndefined JUndefined)"
    by (simp add: isReply_def createParseErrorResponse_def isResponse_error)
  have a: "\<forall>e. fst (handleJsonRpcRequest h srv request ctx) \<noteq> Rejected e"
    by (auto simp: handle_unfold dispatch_never_rejects split: option.splits)
  have b: "list_all (settles h) (snd (handleJsonRpcRequest h srv request ctx)) \<longrightarrow>
        (\<exists>v. fst (handleJsonRpcRequest h srv request ctx) = Fulfilled v \<and> isReply v)"
    by (auto simp: handle_unfold dispatch_settles parse split: option.splits)
  have c: "\<forall>parsed f cb x.
          parsedRequest h request = Some parsed \<and> \<not> Array_isArray parsed
          \<and> private_validateRequest h parsed = JNull
          \<and> ((map_of (methods srv) (stringValue (getProp parsed ''method'')) = Some (JFun f)
               \<and> awaited (apply_function h f [getProp parsed ''params'', defaultContext ctx])
                   = Rejected (OtherException x))
              \<or> (map_of (methods srv) (stringValue (getProp parsed ''method'')) = None
                  \<and> Object_prototype h (stringValue (getProp parsed ''method'')) = None
                  \<and> methodCallback srv = JFun cb
                  \<and> awaited (apply_function h cb
                        [getProp parsed ''method'', getProp parsed ''params'', defaultContext ctx])
                      = Rejected (OtherException x))) \<longrightarrow>
          fst (handleJsonRpcRequest h srv request ctx)
            = Fulfilled (handlingError (resolvedId parsed))"
  proof (intro allI impI, elim conjE)
    fix parsed f cb x
    assume p: "parsedRequest h request = Some parsed" "\<not> Array_isArray parsed"
      and v: "private_validateRequest h parsed = JNull"
      and f: "(map_of (methods srv) (stringValue (getProp parsed ''method'')) = Some (JFun f)
               \<and> awaited (apply_function h f [getProp parsed ''params'', defaultContext ctx])
                   = Rejected (OtherException x))
              \<or> (map_of (methods srv) (stringValue (getProp parsed ''method'')) = None
                  \<and> Object_prototype h (stringValue (getProp parsed ''method'')) = None
                  \<and> methodCallback srv = JFun cb
                  \<and> awaited (apply_function h cb
                        [getProp parsed ''method'', getProp parsed ''params'', defaultContext ctx])
                      = Rejected (OtherException x))"
    from executor_fault [OF v f] handle_single [OF p]
    show "fst (handleJsonRpcRequest h srv request ctx)
            = Fulfilled (handlingError (resolvedId parsed))"
      by simp
  qed
  have d: "\<forall>requests r f cb x.
          parsedRequest h request = Some (JArr requests) \<and> r \<in> set requests
          \<and> private_validateRequest h r = JNull
          \<and> ((map_of (methods srv) (stringValue (getProp r ''method'')) = Some (JFun f)
               \<and> awaited (apply_function h f [getProp r ''params'', defaultContext ctx])
                   = Rejected (OtherException x))
              \<or> (map_of (methods srv) (stringValue (getProp r ''method'')) = None
                  \<and> Object_prototype h (stringValue (getProp r ''method'')) = None
                  \<and> methodCallback srv = JFun cb
                  \<and> awaited (apply_function h cb
                        [getProp r ''method'', getProp r ''params'', defaultContext ctx])
                      = Rejected (OtherException x)))
          \<and> list_all (settles h) (snd (handleJsonRpcRequest h srv request ctx)) \<longrightarrow>
          (\<exists>rs. fst (handleJsonRpcRequest h srv request ctx) = Fulfilled (JArr rs)
                \<and> handlingError (resolvedId r) \<in> set rs)"
  proof (intro allI impI, elim conjE)
    fix requests r f cb x
    assume p: "parsedRequest h request = Some (JArr requests)" and r: "r \<in> set requests"
      and v: "private_validateRequest h r = JNull"
      and f: "(map_of (methods srv) (stringValue (getProp r ''method'')) = Some (JFun f)
               \<and> awaited (apply_function h f [getProp r ''params'', defaultContext ctx])
                   = Rejected (OtherException x))
              \<or> (map_of (methods srv) (stringValue (getProp r ''method'')) = None
                  \<and> Object_prototype h (stringValue (getProp r ''method'')) = None
                  \<and> methodCallback srv = JFun cb
                  \<and> awaited (apply_function h cb
                        [getProp r ''method'', getProp r ''params'', defaultContext ctx])
                      = Rejected (OtherException x))"
      and s: "list_all (settles h) (snd (handleJsonRpcRequest h srv request ctx))"
    from r have ne: "requests \<noteq> []" by auto
    note hb = handle_batch [OF p ne, of srv ctx]
    have ex: "fst (private_handleJsonRpcRequest h srv r (defaultContext (defaultContext ctx)))
        = Fulfilled (handlingError (resolvedId r))"
      using executor_fault [OF v f] by (simp add: defaultContext_again)
    have nn: "handlingError (resolvedId r) \<noteq> JNull" by (simp add: handlingError_def)
    from s hb have s': "list_all (settles h)
        (snd (private_handleJsonRpcBatchRequest h srv requests (defaultContext ctx)))" by simp
    from batch_member [OF s' r ex nn] hb
    show "\<exists>rs. fst (handleJsonRpcRequest h srv request ctx) = Fulfilled (JArr rs)
                \<and> handlingError (resolvedId r) \<in> set rs"
      by simp
  qed
  from a b c d show ?thesis by blast
qed

text \<open>
  The theorem at the text of a call whose handler throws an \<open>Error\<close>, and at a batch of a
  notification and such a call.
\<close>

theorem dispatcher_never_rejects_witness:
  "list_all (settles example_host)
     (snd (handleJsonRpcRequest example_host example_server (JStr example_text) JUndefined))
   \<and> (\<exists>v. fst (handleJsonRpcRequest example_host example_server (JStr example_text) JUndefined)
              = Fulfilled v \<and> isReply v)
   \<and> parsedRequest example_host (JStr example_text)
       = Some (example_request ''alwaysException'' (JNum (Fin 2)))
   \<and> \<not> Array_isArray (example_request ''alwaysException'' (JNum (Fin 2)))
   \<and> private_validateRequest example_host (example_request ''alwaysException'' (JNum (Fin 2))) = JNull
   \<and> map_of (methods example_server)
        (stringValue (getProp (example_request ''alwaysException'' (JNum (Fin 2))) ''method''))
       = Some (JFun 3)
   \<and> awaited (apply_function example_host 3
        [getProp (example_request ''alwaysException'' (JNum (Fin 2))) ''params'', defaultContext JUndefined])
       = Rejected (OtherException (JStr ''Error: Forced exception''))
   \<and> fst (handleJsonRpcRequest example_host example_server (JStr example_text) JUndefined)
       = Fulfilled (handlingError (JNum (Fin 2)))
   \<and> parsedRequest example_host
        (JArr [example_notification ''getHelloString'', example_request ''alwaysException'' (JStr ''a'')])
       = Some (JArr [example_notification ''getHelloString'',
                     example_request ''alwaysException'' (JStr ''a'')])
   \<and> list_all (settles example_host)
        (snd (handleJsonRpcRequest example_host example_server
           (JArr [example_notification ''getHelloString'',
                  example_request ''alwaysException'' (JStr ''a'')]) JUndefined))
   \<and> (\<exists>rs. fst (handleJsonRpcRequest example_host example_server
                  (JArr [example_notification ''getHelloString'',
                         example_request ''alwaysException'' (JStr ''a'')]) JUndefined)
               = Fulfilled (JArr rs)
            \<and> handlingError (JStr ''a'') \<in> set rs)"
proof -
  let ?single = "example_request ''alwaysException'' (JNum (Fin 2))"
  let ?entry = "example_request ''alwaysException'' (JStr ''a'')"
  let ?batch = "JArr [example_notification ''getHelloString'', ?entry]"
  note t1 = dispatcher_never_rejects [of example_host example_server "JStr example_text" JUndefined]
  note t2 = dispatcher_never_rejects [of example_host example_server ?batch JUndefined]
  have s1: "list_all (settles example_host)
     (snd (handleJsonRpcRequest example_host example_server (JStr example_text) JUndefined))"
    by (simp add: model_defs example_defs settles_def)
  have p1: "parsedRequest example_host (JStr example_text) = Some ?single"
    by (simp add: parsedRequest_def isString_def example_defs)
  have n1: "\<not> Array_isArray ?single" by (simp add: example_request_def)
  have v: "\<And>rid. rid = JNum (Fin 2) \<or> rid = JStr ''a'' \<Longrightarrow>
      private_validateRequest example_host (example_request ''alwaysException'' rid) = JNull"
    by (auto simp: model_defs example_defs)
  have m: "\<And>rid. map_of (methods example_server)
        (stringValue (getProp (example_request ''alwaysException'' rid) ''method'')) = Some (JFun 3)"
    by (simp add: example_defs)
  have f: "\<And>rid. awaited (apply_function example_host 3
        [getProp (example_request ''alwaysException'' rid) ''params'', defaultContext JUndefined])
       = Rejected (OtherException (JStr ''Error: Forced exception''))"
    by (simp add: example_defs defaultContext_def)
  have r: "\<And>rid. rid = JNum (Fin 2) \<or> rid = JStr ''a'' \<Longrightarrow>
      resolvedId (example_request ''alwaysException'' rid) = rid"
    by (auto simp: resolvedId_def example_request_def)
  have p2: "parsedRequest example_host ?batch = Some ?batch"
    by (simp add: parsedRequest_def isString_def)
  have s2: "list_all (settles example_host)
        (snd (handleJsonRpcRequest example_host example_server ?batch JUndefined))"
    by (simp add: model_defs example_defs settles_def)
  have e2: "?entry \<in> set [example_notification ''getHelloString'', ?entry]" by simp
  from t1 s1 have c2: "\<exists>v. fst (handleJsonRpcRequest example_host example_server (JStr example_text) JUndefined)
              = Fulfilled v \<and> isReply v"
    by blast
  from t1 p1 n1 v [of "JNum (Fin 2)"] m [of "JNum (Fin 2)"] f [of "JNum (Fin 2)"]
  have "fst (handleJsonRpcRequest example_host example_server (JStr example_text) JUndefined)
       = Fulfilled (handlingError (resolvedId ?single))"
    by blast
  then have c3: "fst (handleJsonRpcRequest example_host example_server (JStr example_text) JUndefined)
       = Fulfilled (handlingError (JNum (Fin 2)))"
    by (simp add: r)
  from t2 p2 e2 v [of "JStr ''a''"] m [of "JStr ''a''"] f [of "JStr ''a''"] s2
  have "\<exists>rs. fst (handleJsonRpcRequest example_host example_server ?batch JUndefined) = Fulfilled (JArr rs)
            \<and> handlingError (resolvedId ?entry) \<in> set rs"
    by blast
  then have c4: "\<exists>rs. fst (handleJsonRpcRequest example_host example_server ?batch JUndefined)
               = Fulfilled (JArr rs)
            \<and> handlingError (JStr ''a'') \<in> set rs"
    by (simp add: r)
  from s1 c2 p1 n1 v [of "JNum (Fin 2)"] m [of "JNum (Fin 2)"] f [of "JNum (Fin 2)"] c3 p2 s2 c4
  show ?thesis by blast
qed

text \<open>
  Claim C1 as it is written fails: the handler registered as \<open>never\<close> returns a promise
  that never settles, and the promise the dispatcher returns for a call of it stays
  pending; it does not resolve to any value.
\<close>

theorem dispatcher_pending_counterexample:
  "fst (handleJsonRpcRequest example_host example_server
          (example_request ''never'' (JNum (Fin 1))) JUndefined) = Pending"
  by (simp add: model_defs example_defs)

text \<open>
  Claim C3. A request passes validation, and its handler completes with the value \<open>v\<close>:
  the function registered under the method of the request, called with the params and
  the context, returns \<open>v\<close> or a promise fulfilled with \<open>v\<close>; or no function is
  registered (or inherited) under that name and the fallback, called with the method, the
  params and the context, returns something other than \<open>undefined\<close> that is \<open>v\<close> or a
  promise fulfilled with \<open>v\<close>. Then the executor returns the object with \<open>jsonrpc\<close>
  "2.0", \<open>result\<close> \<open>v\<close> and the \<open>id\<close> of the request, whatever that id is, when the
  request has an \<open>id\<close> property, and \<open>null\<close> when it has none.
\<close>

theorem result_response_for_success:
  assumes "private_validateRequest h request = JNull"
  shows "(\<forall>f v. map_of (methods srv) (stringValue (getProp request ''method'')) = Some (JFun f)
            \<and> awaited (apply_function h f [getProp request ''params'', ctx]) = Fulfilled v \<longrightarrow>
            fst (private_handleJsonRpcRequest h srv request ctx) =
              Fulfilled (if hasProp request ''id''
                         then JObj [(''jsonrpc'', JStr ''2.0''), (''result'', v),
                                    (''id'', getProp request ''id'')]
                         else JNull))
       \<and> (\<forall>cb v. map_of (methods srv) (stringValue (getProp request ''method'')) = None
            \<and> Object_prototype h (stringValue (getProp request ''method'')) = None
            \<and> methodCallback srv = JFun cb
            \<and> apply_function h cb [getProp request ''method'', getProp request ''params'', ctx]
                 \<noteq> Returns JUndefined
            \<and> awaited (apply_function h cb
                  [getProp request ''method'', getProp request ''params'', ctx]) = Fulfilled v \<longrightarrow>
            fst (private_handleJsonRpcRequest h srv request ctx) =
              Fulfilled (if hasProp request ''id''
                         then JObj [(''jsonrpc'', JStr ''2.0''), (''result'', v),
                                    (''id'', getProp request ''id'')]
                         else JNull))"
proof -
  have a: "\<forall>f v. map_of (methods srv) (stringValue (getProp request ''method'')) = Some (JFun f)
            \<and> awaited (apply_function h f [getProp request ''params'', ctx]) = Fulfilled v \<longrightarrow>
            fst (private_handleJsonRpcRequest h srv request ctx) =
              Fulfilled (if hasProp request ''id''
                         then JObj [(''jsonrpc'', JStr ''2.0''), (''result'', v),
                                    (''id'', getProp request ''id'')]
                         else JNull)"
  proof (intro allI impI, elim conjE)
    fix f v
    assume "map_of (methods srv) (stringValue (getProp request ''method'')) = Some (JFun f)"
      and "awaited (apply_function h f [getProp request ''params'', ctx]) = Fulfilled v"
    then have "handlerPromise h srv ctx request = Some (Fulfilled v)"
      by (simp add: handlerPromise_registered)
    from executor_handler_fulfilled [OF assms this]
    show "fst (private_handleJsonRpcRequest h srv request ctx) =
              Fulfilled (if hasProp request ''id''
                         then JObj [(''jsonrpc'', JStr ''2.0''), (''result'', v),
                                    (''id'', getProp request ''id'')]
                         else JNull)"
      by (simp add: createResultResponse_def)
  qed
  have b: "\<forall>cb v. map_of (methods srv) (stringValue (getProp request ''method'')) = None
            \<and> Object_prototype h (stringValue (getProp request ''method'')) = None
            \<and> methodCallback srv = JFun cb
            \<and> apply_function h cb [getProp request ''method'', getProp request ''params'', ctx]
                 \<noteq> Returns JUndefined
            \<and> awaited (apply_function h cb
                  [getProp request ''method'', getProp request ''params'', ctx]) = Fulfilled v \<longrightarrow>
            fst (private_handleJsonRpcRequest h srv request ctx) =
              Fulfilled (if hasProp request ''id''
                         then JObj [(''jsonrpc'', JStr ''2.0''), (''result'', v),
                                    (''id'', getProp request ''id'')]
                         else JNull)"
  proof (intro allI impI, elim conjE)
    fix cb v
    assume "map_of (methods srv) (stringValue (getProp request ''method'')) = None"
      and "Object_prototype h (stringValue (getProp request ''method'')) = None"
      and "methodCallback srv = JFun cb"
      and "apply_function h cb [getProp request ''method'', getProp request ''params'', ctx]
                 \<noteq> Returns JUndefined"
      and "awaited (apply_function h cb
                  [getProp request ''method'', getProp request ''params'', ctx]) = Fulfilled v"
    then have "handlerPromise h srv ctx request = Some (Fulfilled v)"
      by (simp add: handlerPromise_fallback)
    from executor_handler_fulfilled [OF assms this]
    show "fst (private_handleJsonRpcRequest h srv request ctx) =
              Fulfilled (if hasProp request ''id''
                         then JObj [(''jsonrpc'', JStr ''2.0''), (''result'', v),
                                    (''id'', getProp request ''id'')]
                         else JNull)"
      by (simp add: createResultResponse_def)
  qed
  from a b show ?thesis by blast
qed

text \<open>
  The theorem at three handlers with three results and the ids 0, the empty string and
  \<open>null\<close>, at a notification, and at a fallback.
\<close>

theorem result_response_for_success_witness:
  "private_validateRequest example_host (example_request ''getHelloString'' (JNum (Fin 0))) = JNull
   \<and> map_of (methods example_server)
        (stringValue (getProp (example_request ''getHelloString'' (JNum (Fin 0))) ''method''))
       = Some (JFun 1)
   \<and> awaited (apply_function example_host 1
        [getProp (example_request ''getHelloString'' (JNum (Fin 0))) ''params'', JObj []])
       = Fulfilled (JStr ''Hello World!'')
   \<and> fst (private_handleJsonRpcRequest example_host example_server
             (example_request ''getHelloString'' (JNum (Fin 0))) (JObj []))
       = Fulfilled (JObj [(''jsonrpc'', JStr ''2.0''), (''result'', JStr ''Hello World!''),
                          (''id'', JNum (Fin 0))])
   \<and> fst (private_handleJsonRpcRequest example_host example_server
             (example_request ''asyncAdd'' (JStr [])) (JObj []))
       = Fulfilled (JObj [(''jsonrpc'', JStr ''2.0''), (''result'', JNum (Fin 12)),
                          (''id'', JStr [])])
   \<and> fst (private_handleJsonRpcRequest example_host example_server
             (example_request ''nothing'' JNull) (JObj []))
       = Fulfilled (JObj [(''jsonrpc'', JStr ''2.0''), (''result'', JNull), (''id'', JNull)])
   \<and> fst (private_handleJsonRpcRequest example_host example_server
             (example_notification ''getHelloString'') (JObj []))
       = Fulfilled JNull
   \<and> map_of (methods (registerMethodCallback new_TinyJsonRpcServer (JFun 5)))
        (stringValue (getProp (example_request ''hello'' (JNum (Fin 1))) ''method'')) = None
   \<and> Object_prototype example_host
        (stringValue (getProp (example_request ''hello'' (JNum (Fin 1))) ''method'')) = None
   \<and> methodCallback (registerMethodCallback new_TinyJsonRpcServer (JFun 5)) = JFun 5
   \<and> apply_function example_host 5
        [getProp (example_request ''hello'' (JNum (Fin 1))) ''method'',
         getProp (example_request ''hello'' (JNum (Fin 1))) ''params'', JObj []]
       = Returns (JStr ''Hello callback World!'')
   \<and> fst (private_handleJsonRpcRequest example_host
             (registerMethodCallback new_TinyJsonRpcServer (JFun 5))
             (example_request ''hello'' (JNum (Fin 1))) (JObj []))
       = Fulfilled (JObj [(''jsonrpc'', JStr ''2.0''), (''result'', JStr ''Hello callback World!''),
                          (''id'', JNum (Fin 1))])"
proof -
  have v: "\<And>name rid. name \<noteq> [] \<Longrightarrow> rid = JNum (Fin 0) \<or> rid = JStr [] \<or> rid = JNull \<or> rid = JNum (Fin 1) \<Longrightarrow>
      private_validateRequest example_host (example_request name rid) = JNull"
    by (auto simp: private_validateRequest_def validId_def validParams_def isNumeric_def isFinite_def
          isString_def example_request_def example_host_def)
  have vn: "private_validateRequest example_host (example_notification ''getHelloString'') = JNull"
    by (simp add: private_validateRequest_def validId_def validParams_def isNumeric_def isFinite_def
          isString_def example_notification_def)
  have p: "\<And>name rid. hasProp (example_request name rid) ''id''"
      "\<And>name rid. getProp (example_request name rid) ''id'' = rid"
      "\<And>name rid. getProp (example_request name rid) ''method'' = JStr name"
      "\<And>name rid. getProp (example_request name rid) ''params'' = JUndefined"
      "\<not> hasProp (example_notification ''getHelloString'') ''id''"
      "getProp (example_notification ''getHelloString'') ''method'' = JStr ''getHelloString''"
      "getProp (example_notification ''getHelloString'') ''params'' = JUndefined"
    by (simp_all add: example_request_def example_notification_def)
  have m: "map_of (methods example_server) ''getHelloString'' = Some (JFun 1)"
      "map_of (methods example_server) ''asyncAdd'' = Some (JFun 7)"
      "map_of (methods example_server) ''nothing'' = Some (JFun 6)"
      "map_of (methods (registerMethodCallback new_TinyJsonRpcServer (JFun 5))) ''hello'' = None"
      "Object_prototype example_host ''hello'' = None"
      "methodCallback (registerMethodCallback new_TinyJsonRpcServer (JFun 5)) = JFun 5"
    by (simp_all add: example_defs)
  have f: "apply_function example_host 1 [JUndefined, JObj []] = Returns (JStr ''Hello World!'')"
      "apply_function example_host 7 [JUndefined, JObj []] = ReturnsPromise (Fulfilled (JNum (Fin 12)))"
      "apply_function example_host 6 [JUndefined, JObj []] = Returns JNull"
      "apply_function example_host 5 [JStr ''hello'', JUndefined, JObj []]
         = Returns (JStr ''Hello callback World!'')"
    by (simp_all add: example_defs)
  note t = result_response_for_success
  from t [OF v, of "''getHelloString''" "JNum (Fin 0)" example_server "JObj []"] m f
  have c1: "fst (private_handleJsonRpcRequest example_host example_server
             (example_request ''getHelloString'' (JNum (Fin 0))) (JObj []))
       = Fulfilled (JObj [(''jsonrpc'', JStr ''2.0''), (''result'', JStr ''Hello World!''),
                          (''id'', JNum (Fin 0))])"
    by (simp add: p)
  from t [OF v, of "''asyncAdd''" "JStr []" example_server "JObj []"] m f
  have c2: "fst (private_handleJsonRpcRequest example_host example_server
             (example_request ''asyncAdd'' (JStr [])) (JObj []))
       = Fulfilled (JObj [(''jsonrpc'', JStr ''2.0''), (''result'', JNum (Fin 12)),
                          (''id'', JStr [])])"
    by (simp add: p)
  from t [OF v, of "''nothing''" JNull example_server "JObj []"] m f
  have c3: "fst (private_handleJsonRpcRequest example_host example_server
             (example_request ''nothing'' JNull) (JObj []))
       = Fulfilled (JObj [(''jsonrpc'', JStr ''2.0''), (''result'', JNull), (''id'', JNull)])"
    by (simp add: p)
  from t [OF vn, of example_server "JObj []"] m f
  have c4: "fst (private_handleJsonRpcRequest example_host example_server
             (example_notification ''getHelloString'') (JObj []))
       = Fulfilled JNull"
    by (simp add: p)
  from t [OF v, of "''hello''" "JNum (Fin 1)" "registerMethodCallback new_TinyJsonRpcServer (JFun 5)" "JObj []"] m f
  have c5: "fst (private_handleJsonRpcRequest example_host
             (registerMethodCallback new_TinyJsonRpcServer (JFun 5))
             (example_request ''hello'' (JNum (Fin 1))) (JObj []))
       = Fulfilled (JObj [(''jsonrpc'', JStr ''2.0''), (''result'', JStr ''Hello callback World!''),
                          (''id'', JNum (Fin 1))])"
    by (simp add: p)
  from c1 c2 c3 c4 c5 v [of "''getHelloString''" "JNum (Fin 0)"] m f show ?thesis by (simp add: p)
qed

text \<open>
  Claim C4, as amended. A request passes validation and its handler fails with \<open>e\<close>: the
  function registered under its method, or else the fallback, throws \<open>e\<close> or returns a
  promise rejected with \<open>e\<close>. If \<open>e\<close> is a \<open>JsonRpcRequestException\<close> whose \<open>errorObj\<close>
  is neither \<open>undefined\<close> nor \<open>null\<close>, the executor returns the error response whose
  error is \<open>createErrorObject\<close> applied to the code, message and data of that error
  object, with the resolved id: this is the error object itself when \<open>createErrorObject\<close>
  built it, but a code that is not numeric is replaced by \<open>INTERNAL_ERROR\<close>, an empty
  message by "Unspecified error", and falsy data is left out. If \<open>e\<close> is a
  \<open>JsonRpcRequestException\<close> whose \<open>errorObj\<close> is \<open>undefined\<close> or \<open>null\<close>, the response
  carries the code -32603 and the message "A critical error occurred when handling
  request". If \<open>e\<close> is not a \<open>JsonRpcRequestException\<close>, the response carries the code
  -32603 and the message "An error occurred when handling request". Each carries the
  resolved id, each is an object, never \<open>null\<close>, and for a notification the resolved id
  is \<open>null\<close>.
\<close>

theorem error_response_for_failure:
  assumes "private_validateRequest h request = JNull"
      and "(map_of (methods srv) (stringValue (getProp request ''method'')) = Some (JFun f)
            \<and> awaited (apply_function h f [getProp request ''params'', ctx]) = Rejected e)
         \<or> (map_of (methods srv) (stringValue (getProp request ''method'')) = None
            \<and> Object_prototype h (stringValue (getProp request ''method'')) = None
            \<and> methodCallback srv = JFun cb
            \<and> awaited (apply_function h cb
                  [getProp request ''method'', getProp request ''params'', ctx]) = Rejected e)"
  shows "(\<forall>eo. e = RequestException eo \<and> eo \<noteq> JUndefined \<and> eo \<noteq> JNull \<longrightarrow>
            fst (private_handleJsonRpcRequest h srv request ctx) =
              Fulfilled (JObj [(''jsonrpc'', JStr ''2.0''),
                               (''error'', createErrorObject h (getProp eo ''code'')
                                             (getProp eo ''message'') (getProp eo ''data'')),
                               (''id'', resolvedId request)]))
       \<and> (\<forall>code message dat. e = RequestException (createErrorObject h code message dat) \<longrightarrow>
            fst (private_handleJsonRpcRequest h srv request ctx) =
              Fulfilled (JObj [(''jsonrpc'', JStr ''2.0''),
                               (''error'', createErrorObject h code message dat),
                               (''id'', resolvedId request)]))
       \<and> (e = RequestException JUndefined \<or> e = RequestException JNull \<longrightarrow>
            fst (private_handleJsonRpcRequest h srv request ctx) =
              Fulfilled (JObj [(''jsonrpc'', JStr ''2.0''),
                               (''error'', JObj [(''code'', JNum (Fin (- 32603))),
                                                 (''message'', JStr ''A critical error occurred when handling request'')]),
                               (''id'', resolvedId request)]))
       \<and> (\<forall>x. e = OtherException x \<longrightarrow>
            fst (private_handleJsonRpcRequest h srv request ctx) =
              Fulfilled (JObj [(''jsonrpc'', JStr ''2.0''),
                               (''error'', JObj [(''code'', JNum (Fin (- 32603))),
                                                 (''message'', JStr ''An error occurred when handling request'')]),
                               (''id'', resolvedId request)]))
       \<and> (\<not> hasProp request ''id'' \<longrightarrow> resolvedId request = JNull)"
proof -
  note ex = executor_handler_rejected [OF assms(1) handler_fails [OF assms(2)]]
  note rid = valid_resolvedId [OF assms(1)]
  have a: "\<forall>eo. e = RequestException eo \<and> eo \<noteq> JUndefined \<and> eo \<noteq> JNull \<longrightarrow>
            fst (private_handleJsonRpcRequest h srv request ctx) =
              Fulfilled (JObj [(''jsonrpc'', JStr ''2.0''),
                               (''error'', createErrorObject h (getProp eo ''code'')
                                             (getProp eo ''message'') (getProp eo ''data'')),
                               (''id'', resolvedId request)])"
    using ex rid by (simp add: failureResponse_def createErrorResponse_id)
  have obj: "\<And>code message dat. createErrorObject h code message dat \<noteq> JUndefined \<and>
       createErrorObject h code message dat \<noteq> JNull"
    by (simp add: createErrorObject_def)
  have b: "\<forall>code message dat. e = RequestException (createErrorObject h code message dat) \<longrightarrow>
            fst (private_handleJsonRpcRequest h srv request ctx) =
              Fulfilled (JObj [(''jsonrpc'', JStr ''2.0''),
                               (''error'', createErrorObject h code message dat),
                               (''id'', resolvedId request)])"
  proof (intro allI impI)
    fix code message dat
    assume eq: "e = RequestException (createErrorObject h code message dat)"
    with a obj [of code message dat]
    have "fst (private_handleJsonRpcRequest h srv request ctx) =
            Fulfilled (JObj [(''jsonrpc'', JStr ''2.0''),
                             (''error'', createErrorObject h
                                (getProp (createErrorObject h code message dat) ''code'')
                                (getProp (createErrorObject h code message dat) ''message'')
                                (getProp (createErrorObject h code message dat) ''data'')),
                             (''id'', resolvedId request)])"
      by blast
    then show "fst (private_handleJsonRpcRequest h srv request ctx) =
              Fulfilled (JObj [(''jsonrpc'', JStr ''2.0''),
                               (''error'', createErrorObject h code message dat),
                               (''id'', resolvedId request)])"
      by (simp only: createErrorObject_again)
  qed
  have k: "e = RequestException JUndefined \<or> e = RequestException JNull \<longrightarrow>
            fst (private_handleJsonRpcRequest h srv request ctx) =
              Fulfilled (JObj [(''jsonrpc'', JStr ''2.0''),
                               (''error'', JObj [(''code'', JNum (Fin (- 32603))),
                                                 (''message'', JStr ''A critical error occurred when handling request'')]),
                               (''id'', resolvedId request)])"
    using ex rid by (auto simp: failure_critical criticalError_def)
  have c: "\<forall>x. e = OtherException x \<longrightarrow>
            fst (private_handleJsonRpcRequest h srv request ctx) =
              Fulfilled (JObj [(''jsonrpc'', JStr ''2.0''),
                               (''error'', JObj [(''code'', JNum (Fin (- 32603))),
                                                 (''message'', JStr ''An error occurred when handling request'')]),
                               (''id'', resolvedId request)])"
    using ex rid by (auto simp: failure_handling handlingError_def)
  have d: "\<not> hasProp request ''id'' \<longrightarrow> resolvedId request = JNull"
    by (simp add: resolvedId_def)
  from a b k c d show ?thesis by blast
qed

text \<open>
  The theorem at a notification whose handler throws an exception with an empty message,
  at handlers that throw an exception built by \<open>createErrorObject\<close>, an exception without
  an error object and an \<open>Error\<close>, and at a fallback that throws an \<open>Error\<close>.
\<close>

theorem error_response_for_failure_witness:
  "private_validateRequest example_host (example_notification ''badParams'') = JNull
   \<and> map_of (methods example_server)
        (stringValue (getProp (example_notification ''badParams'') ''method'')) = Some (JFun 4)
   \<and> awaited (apply_function example_host 4
        [getProp (example_notification ''badParams'') ''params'', JObj []])
       = Rejected (RequestException (JObj [(''code'', JNum (Fin 1)), (''message'', JStr [])]))
   \<and> \<not> hasProp (example_notification ''badParams'') ''id''
   \<and> fst (private_handleJsonRpcRequest example_host example_server
             (example_notification ''badParams'') (JObj []))
       = Fulfilled (JObj [(''jsonrpc'', JStr ''2.0''),
                          (''error'', JObj [(''code'', JNum (Fin 1)),
                                            (''message'', JStr ''Unspecified error'')]),
                          (''id'', JNull)])
   \<and> createErrorObject example_host INVALID_PARAMS (JStr ''Invalid parameter'') JUndefined
       = JObj [(''code'', JNum (Fin (- 32602))), (''message'', JStr ''Invalid parameter'')]
   \<and> fst (private_handleJsonRpcRequest example_host example_server
             (example_request ''throwParamError'' (JNum (Fin 3))) (JObj []))
       = Fulfilled (JObj [(''jsonrpc'', JStr ''2.0''),
                          (''error'', JObj [(''code'', JNum (Fin (- 32602))),
                                            (''message'', JStr ''Invalid parameter'')]),
                          (''id'', JNum (Fin 3))])
   \<and> fst (private_handleJsonRpcRequest example_host example_server
             (example_request ''noArguments'' (JNum (Fin 3))) (JObj []))
       = Fulfilled (JObj [(''jsonrpc'', JStr ''2.0''),
                          (''error'', JObj [(''code'', JNum (Fin (- 32603))),
                                            (''message'', JStr ''A critical error occurred when handling request'')]),
                          (''id'', JNum (Fin 3))])
   \<and> fst (private_handleJsonRpcRequest example_host example_server
             (example_request ''alwaysException'' (JNum (Fin 3))) (JObj []))
       = Fulfilled (JObj [(''jsonrpc'', JStr ''2.0''),
                          (''error'', JObj [(''code'', JNum (Fin (- 32603))),
                                            (''message'', JStr ''An error occurred when handling request'')]),
                          (''id'', JNum (Fin 3))])
   \<and> map_of (methods (registerMethodCallback new_TinyJsonRpcServer (JFun 8)))
        (stringValue (getProp (example_request ''anything'' (JNum (Fin 3))) ''method'')) = None
   \<and> Object_prototype example_host
        (stringValue (getProp (example_request ''anything'' (JNum (Fin 3))) ''method'')) = None
   \<and> methodCallback (registerMethodCallback new_TinyJsonRpcServer (JFun 8)) = JFun 8
   \<and> awaited (apply_function example_host 8
        [getProp (example_request ''anything'' (JNum (Fin 3))) ''method'',
         getProp (example_request ''anything'' (JNum (Fin 3))) ''params'', JObj []])
       = Rejected (OtherException (JStr ''Error: callback failed''))
   \<and> fst (private_handleJsonRpcRequest example_host
             (registerMethodCallback new_TinyJsonRpcServer (JFun 8))
             (example_request ''anything'' (JNum (Fin 3))) (JObj []))
       = Fulfilled (JObj [(''jsonrpc'', JStr ''2.0''),
                          (''error'', JObj [(''code'', JNum (Fin (- 32603))),
                                            (''message'', JStr ''An error occurred when handling request'')]),
                          (''id'', JNum (Fin 3))])"
proof -
  have vn: "private_validateRequest example_host (example_notification ''badParams'') = JNull"
    by (simp add: model_defs example_defs)
  have v: "\<And>name. name \<noteq> [] \<Longrightarrow>
      private_validateRequest example_host (example_request name (JNum (Fin 3))) = JNull"
    by (simp add: private_validateRequest_def validId_def validParams_def isNumeric_def isFinite_def
          isString_def example_request_def)
  have p: "\<And>name. hasProp (example_request name (JNum (Fin 3))) ''id''"
      "\<And>name. resolvedId (example_request name (JNum (Fin 3))) = JNum (Fin 3)"
      "\<And>name. getProp (example_request name (JNum (Fin 3))) ''method'' = JStr name"
      "\<And>name. getProp (example_request name (JNum (Fin 3))) ''params'' = JUndefined"
      "\<not> hasProp (example_notification ''badParams'') ''id''"
      "resolvedId (example_notification ''badParams'') = JNull"
      "getProp (example_notification ''badParams'') ''method'' = JStr ''badParams''"
      "getProp (example_notification ''badParams'') ''params'' = JUndefined"
    by (simp_all add: example_request_def example_notification_def resolvedId_def)
  have m: "map_of (methods example_server) ''badParams'' = Some (JFun 4)"
      "map_of (methods example_server) ''throwParamError'' = Some (JFun 10)"
      "map_of (methods example_server) ''noArguments'' = Some (JFun 9)"
      "map_of (methods example_server) ''alwaysException'' = Some (JFun 3)"
      "map_of (methods (registerMethodCallback new_TinyJsonRpcServer (JFun 8))) ''anything'' = None"
      "Object_prototype example_host ''anything'' = None"
      "methodCallback (registerMethodCallback new_TinyJsonRpcServer (JFun 8)) = JFun 8"
    by (simp_all add: example_defs)
  have f: "awaited (apply_function example_host 4 [JUndefined, JObj []])
             = Rejected (RequestException (JObj [(''code'', JNum (Fin 1)), (''message'', JStr [])]))"
      "awaited (apply_function example_host 10 [JUndefined, JObj []])
             = Rejected (RequestException
                  (JObj [(''code'', JNum (Fin (- 32602))), (''message'', JStr ''Invalid parameter'')]))"
      "awaited (apply_function example_host 9 [JUndefined, JObj []])
             = Rejected (RequestException JUndefined)"
      "awaited (apply_function example_host 3 [JUndefined, JObj []])
             = Rejected (OtherException (JStr ''Error: Forced exception''))"
      "awaited (apply_function example_host 8 [JStr ''anything'', JUndefined, JObj []])
             = Rejected (OtherException (JStr ''Error: callback failed''))"
    by (simp_all add: example_defs)
  have o: "createErrorObject example_host
             (getProp (JObj [(''code'', JNum (Fin 1)), (''message'', JStr [])]) ''code'')
             (getProp (JObj [(''code'', JNum (Fin 1)), (''message'', JStr [])]) ''message'')
             (getProp (JObj [(''code'', JNum (Fin 1)), (''message'', JStr [])]) ''data'')
           = JObj [(''code'', JNum (Fin 1)), (''message'', JStr ''Unspecified error'')]"
    by (simp add: createErrorObject_def isNumeric_JNum)
  have o2: "createErrorObject example_host INVALID_PARAMS (JStr ''Invalid parameter'') JUndefined
       = JObj [(''code'', JNum (Fin (- 32602))), (''message'', JStr ''Invalid parameter'')]"
    by (simp add: createErrorObject_def isNumeric_codes) (simp add: INVALID_PARAMS_def)
  have o3: "createErrorObject example_host (JNum (Fin (- 32602))) (JStr ''Invalid parameter'') JUndefined
       = JObj [(''code'', JNum (Fin (- 32602))), (''message'', JStr ''Invalid parameter'')]"
    by (simp add: createErrorObject_def isNumeric_JNum)
  note t = error_response_for_failure
  have c1: "fst (private_handleJsonRpcRequest example_host example_server
             (example_notification ''badParams'') (JObj []))
       = Fulfilled (JObj [(''jsonrpc'', JStr ''2.0''),
                          (''error'', JObj [(''code'', JNum (Fin 1)),
                                            (''message'', JStr ''Unspecified error'')]),
                          (''id'', JNull)])"
    using t [OF vn, of example_server 4 "JObj []" _ 0] m f o by (simp add: p)
  have c2: "fst (private_handleJsonRpcRequest example_host example_server
             (example_request ''throwParamError'' (JNum (Fin 3))) (JObj []))
       = Fulfilled (JObj [(''jsonrpc'', JStr ''2.0''),
                          (''error'', JObj [(''code'', JNum (Fin (- 32602))),
                                            (''message'', JStr ''Invalid parameter'')]),
                          (''id'', JNum (Fin 3))])"
    using t [OF v, of "''throwParamError''" example_server 10 "JObj []"
               "RequestException (createErrorObject example_host INVALID_PARAMS (JStr ''Invalid parameter'') JUndefined)" 0]
          m f by (simp add: p o2 o3)
  have c3: "fst (private_handleJsonRpcRequest example_host example_server
             (example_request ''noArguments'' (JNum (Fin 3))) (JObj []))
       = Fulfilled (JObj [(''jsonrpc'', JStr ''2.0''),
                          (''error'', JObj [(''code'', JNum (Fin (- 32603))),
                                            (''message'', JStr ''A critical error occurred when handling request'')]),
                          (''id'', JNum (Fin 3))])"
    using t [OF v, of "''noArguments''" example_server 9 "JObj []" "RequestException JUndefined" 0]
          m f by (simp add: p)
  have c4: "fst (private_handleJsonRpcRequest example_host example_server
             (example_request ''alwaysException'' (JNum (Fin 3))) (JObj []))
       = Fulfilled (JObj [(''jsonrpc'', JStr ''2.0''),
                          (''error'', JObj [(''code'', JNum (Fin (- 32603))),
                                            (''message'', JStr ''An error occurred when handling request'')]),
                          (''id'', JNum (Fin 3))])"
    using t [OF v, of "''alwaysException''" example_server 3 "JObj []"
               "OtherException (JStr ''Error: Forced exception'')" 0]
          m f by (simp add: p)
  have c5: "fst (private_handleJsonRpcRequest example_host
             (registerMethodCallback new_TinyJsonRpcServer (JFun 8))
             (example_request ''anything'' (JNum (Fin 3))) (JObj []))
       = Fulfilled (JObj [(''jsonrpc'', JStr ''2.0''),
                          (''error'', JObj [(''code'', JNum (Fin (- 32603))),
                                            (''message'', JStr ''An error occurred when handling request'')]),
                          (''id'', JNum (Fin 3))])"
    using t [OF v, of "''anything''" "registerMethodCallback new_TinyJsonRpcServer (JFun 8)" 0 "JObj []"
               "OtherException (JStr ''Error: callback failed'')" 8]
          m f by (simp add: p)
  from c1 c2 c3 c4 c5 vn m f o2 show ?thesis by (simp add: p)
qed

text \<open>
  Claim C4 as it is written fails: the handler \<open>badParams\<close> throws an exception whose
  error object has the code 1 and the empty message, and the response carries the
  message "Unspecified error", which is not the exception's message.
\<close>

theorem failure_normalised_counterexample:
  "fst (invokeMethod example_host example_server
          (example_request ''badParams'' (JNum (Fin 1))) JUndefined)
     = Some (Throws (RequestException (JObj [(''code'', JNum (Fin 1)), (''message'', JStr [])])))
   \<and> fst (private_handleJsonRpcRequest example_host example_server
          (example_request ''badParams'' (JNum (Fin 1))) JUndefined)
     = Fulfilled (JObj [(''jsonrpc'', JStr ''2.0''),
                        (''error'', JObj [(''code'', JNum (Fin 1)), (''message'', JStr ''Unspecified error'')]),
                        (''id'', JNum (Fin 1))])
   \<and> JStr ''Unspecified error'' \<noteq> JStr []"
  by (simp add: model_defs example_defs)

text \<open>
  Claim C5. A non-empty batch of N requests, M of them notifications, every one of which
  succeeds when its handler is called with the context of the batch (the one given, or
  the empty object when none is given), makes the batch handler return \<open>null\<close> when
  M = N, and otherwise the array of the result responses of the requests that have an
  id, in their order; that array has exactly N - M entries.
\<close>

theorem all_success_batch_size:
  assumes "requests \<noteq> []" and "list_all (succeeds h srv (defaultContext ctx)) requests"
  shows "fst (private_handleJsonRpcBatchRequest h srv requests ctx) =
           Fulfilled
             (if length (filter isNotification requests) = length requests then JNull
              else JArr (map (\<lambda>request. createResultResponse
                                          (resultOf h srv (defaultContext ctx) request)
                                          (getProp request ''id''))
                           (filter (\<lambda>request. \<not> isNotification request) requests)))
       \<and> length (map (\<lambda>request. createResultResponse
                                          (resultOf h srv (defaultContext ctx) request)
                                          (getProp request ''id''))
                           (filter (\<lambda>request. \<not> isNotification request) requests))
           = length requests - length (filter isNotification requests)"
proof -
  let ?out = "\<lambda>request. if hasProp request ''id''
                      then createResultResponse (resultOf h srv (defaultContext ctx) request)
                             (getProp request ''id'')
                      else JNull"
  have "map (\<lambda>request. fst (private_handleJsonRpcRequest h srv request (defaultContext ctx))) requests
          = map Fulfilled (map ?out requests)"
    using assms(2) by (simp add: list_all_iff succeeds_executor)
  from batch_fulfilled [OF this] show ?thesis
    by (simp add: filter_responses all_notifications count_with_id)
qed

text \<open>
  The theorem at a batch of three with one notification, at a batch of two
  notifications with a context, and at a call that returns the context: the empty
  object when none is given.
\<close>

theorem all_success_batch_size_witness:
  "[example_notification ''getHelloString'', example_request ''asyncAdd'' (JStr ''a''),
    example_request ''nothing'' (JNum (Fin 7))] \<noteq> []
   \<and> defaultContext JUndefined = JObj []
   \<and> list_all (succeeds example_host example_server (defaultContext JUndefined))
       [example_notification ''getHelloString'', example_request ''asyncAdd'' (JStr ''a''),
        example_request ''nothing'' (JNum (Fin 7))]
   \<and> fst (private_handleJsonRpcBatchRequest example_host example_server
            [example_notification ''getHelloString'', example_request ''asyncAdd'' (JStr ''a''),
             example_request ''nothing'' (JNum (Fin 7))] JUndefined)
       = Fulfilled (JArr [JObj [(''jsonrpc'', JStr ''2.0''), (''result'', JNum (Fin 12)), (''id'', JStr ''a'')],
                          JObj [(''jsonrpc'', JStr ''2.0''), (''result'', JNull), (''id'', JNum (Fin 7))]])
   \<and> list_all (succeeds example_host example_server (defaultContext (JStr ''session'')))
       [example_notification ''getHelloString'', example_notification ''nothing'']
   \<and> fst (private_handleJsonRpcBatchRequest example_host example_server
            [example_notification ''getHelloString'', example_notification ''nothing'']
            (JStr ''session''))
       = Fulfilled JNull
   \<and> list_all (succeeds example_host example_server (defaultContext JUndefined))
       [example_request ''getContext'' (JNum (Fin 4))]
   \<and> fst (private_handleJsonRpcBatchRequest example_host example_server
            [example_request ''getContext'' (JNum (Fin 4))] JUndefined)
       = Fulfilled (JArr [JObj [(''jsonrpc'', JStr ''2.0''), (''result'', JObj []), (''id'', JNum (Fin 4))]])"
proof -
  have s3: "list_all (succeeds example_host example_server (defaultContext JUndefined))
       [example_request ''getContext'' (JNum (Fin 4))]"
    by (simp add: succeeds_def handlerPromise_def model_defs example_defs)
  have r3: "resultOf example_host example_server (defaultContext JUndefined)
             (example_request ''getContext'' (JNum (Fin 4))) = JObj []"
      "\<not> isNotification (example_request ''getContext'' (JNum (Fin 4)))"
      "getProp (example_request ''getContext'' (JNum (Fin 4))) ''id'' = JNum (Fin 4)"
    by (simp_all add: resultOf_def handlerPromise_def isNotification_def model_defs example_defs)
  from all_success_batch_size [OF _ s3] r3
  have c3: "fst (private_handleJsonRpcBatchRequest example_host example_server
            [example_request ''getContext'' (JNum (Fin 4))] JUndefined)
       = Fulfilled (JArr [JObj [(''jsonrpc'', JStr ''2.0''), (''result'', JObj []), (''id'', JNum (Fin 4))]])"
    by (simp add: createResultResponse_def)
  have s: "list_all (succeeds example_host example_server (defaultContext JUndefined))
       [example_notification ''getHelloString'', example_request ''asyncAdd'' (JStr ''a''),
        example_request ''nothing'' (JNum (Fin 7))]"
    by (simp add: succeeds_def handlerPromise_def model_defs example_defs)
  have s2: "list_all (succeeds example_host example_server (defaultContext (JStr ''session'')))
       [example_notification ''getHelloString'', example_notification ''nothing'']"
    by (simp add: succeeds_def handlerPromise_def model_defs example_defs)
  have r: "resultOf example_host example_server (defaultContext JUndefined)
             (example_request ''asyncAdd'' (JStr ''a'')) = JNum (Fin 12)"
      "resultOf example_host example_server (defaultContext JUndefined)
             (example_request ''nothing'' (JNum (Fin 7))) = JNull"
    by (simp_all add: resultOf_def handlerPromise_def model_defs example_defs)
  have n: "isNotification (example_notification ''getHelloString'')"
      "isNotification (example_notification ''nothing'')"
      "\<not> isNotification (example_request ''asyncAdd'' (JStr ''a''))"
      "\<not> isNotification (example_request ''nothing'' (JNum (Fin 7)))"
      "getProp (example_request ''asyncAdd'' (JStr ''a'')) ''id'' = JStr ''a''"
      "getProp (example_request ''nothing'' (JNum (Fin 7))) ''id'' = JNum (Fin 7)"
    by (simp_all add: isNotification_def example_request_def example_notification_def)
  have d: "defaultContext JUndefined = JObj []" by (simp add: defaultContext_def)
  from all_success_batch_size [OF _ s] r n
  have c1: "fst (private_handleJsonRpcBatchRequest example_host example_server
            [example_notification ''getHelloString'', example_request ''asyncAdd'' (JStr ''a''),
             example_request ''nothing'' (JNum (Fin 7))] JUndefined)
       = Fulfilled (JArr [JObj [(''jsonrpc'', JStr ''2.0''), (''result'', JNum (Fin 12)), (''id'', JStr ''a'')],
                          JObj [(''jsonrpc'', JStr ''2.0''), (''result'', JNull), (''id'', JNum (Fin 7))]])"
    by (simp add: createResultResponse_def)
  from all_success_batch_size [OF _ s2] n
  have c2: "fst (private_handleJsonRpcBatchRequest example_host example_server
            [example_notification ''getHelloString'', example_notification ''nothing'']
            (JStr ''session''))
       = Fulfilled JNull"
    by simp
  from s s2 s3 c1 c2 c3 d show ?thesis by simp
qed

text \<open>
  Claim C6. Given the empty array, directly or as the result of parsing the text it is
  given, \<open>handleJsonRpcRequest\<close> returns one error response, not an array: code -32600,
  message "Invalid request, missing request object(s)", id \<open>null\<close>. No function is
  called on the way (the log of calls is empty), whatever the server holds.
\<close>

theorem empty_batch_is_invalid_request:
  "handleJsonRpcRequest h srv (JArr []) ctx =
     (Fulfilled (JObj [(''jsonrpc'', JStr ''2.0''),
                       (''error'', JObj [(''code'', JNum (Fin (- 32600))),
                                         (''message'', JStr ''Invalid request, missing request object(s)'')]),
                       (''id'', JNull)]), [])
   \<and> (isString text \<and> JSON_parse h (stringValue text) = Some (JArr []) \<longrightarrow>
        handleJsonRpcRequest h srv text ctx =
          (Fulfilled (JObj [(''jsonrpc'', JStr ''2.0''),
                            (''error'', JObj [(''code'', JNum (Fin (- 32600))),
                                              (''message'', JStr ''Invalid request, missing request object(s)'')]),
                            (''id'', JNull)]), []))"
  by (simp add: handle_unfold dispatch_def isString_def createErrorResponse_def createErrorObject_def
        isNumeric_codes) (simp add: INVALID_REQUEST_def)

text \<open>The theorem at the text \<open>[]\<close>, which the example host parses to the empty array.\<close>

theorem empty_batch_is_invalid_request_witness:
  "isString (JStr ''[]'') \<and> JSON_parse example_host (stringValue (JStr ''[]'')) = Some (JArr [])
   \<and> handleJsonRpcRequest example_host example_server (JStr ''[]'') JUndefined =
        (Fulfilled (JObj [(''jsonrpc'', JStr ''2.0''),
                          (''error'', JObj [(''code'', JNum (Fin (- 32600))),
                                            (''message'', JStr ''Invalid request, missing request object(s)'')]),
                          (''id'', JNull)]), [])"
proof -
  have p: "isString (JStr ''[]'')" "JSON_parse example_host (stringValue (JStr ''[]'')) = Some (JArr [])"
    by (simp_all add: isString_def example_host_def)
  from empty_batch_is_invalid_request [of example_host example_server JUndefined "JStr ''[]''"] p
  show ?thesis by blast
qed

text \<open>
  Claim C7, as amended. \<open>createErrorObject\<close> keeps the given code when \<open>isNumeric\<close>
  accepts it and puts \<open>INTERNAL_ERROR\<close> (-32603) otherwise; of the numbers, \<open>isNumeric\<close>
  accepts every finite one, an integer or not, and rejects \<open>NaN\<close> and the two
  infinities, and it rejects an absent code. The message is the given string when that
  is not empty and "Unspecified error" when it is empty or absent. The object has a
  \<open>data\<close> property exactly when the given data is truthy, and then it is that data.
\<close>

theorem error_object_fields:
  "getProp (createErrorObject h code message dat) ''code''
      = (if isNumeric h code then code else JNum (Fin (- 32603)))
   \<and> isNumeric h (JNum n) = (case n of Fin r \<Rightarrow> True | _ \<Rightarrow> False)
   \<and> \<not> isNumeric h JUndefined
   \<and> getProp (createErrorObject h code (JStr s) dat) ''message''
      = (if s \<noteq> [] then JStr s else JStr ''Unspecified error'')
   \<and> getProp (createErrorObject h code JUndefined dat) ''message'' = JStr ''Unspecified error''
   \<and> hasProp (createErrorObject h code message dat) ''data'' = truthy dat
   \<and> (truthy dat \<longrightarrow> getProp (createErrorObject h code message dat) ''data'' = dat)"
  by (simp add: createErrorObject_def isNumeric_JNum INTERNAL_ERROR_def)
     (simp add: isNumeric_def)

text \<open>The theorem at truthy data, at the code \<open>NaN\<close>, and at the falsy data 0.\<close>

theorem error_object_fields_witness:
  "truthy (JStr ''details'')
   \<and> getProp (createErrorObject example_host (JNum (Fin (- 32000))) (JStr ''bad'') (JStr ''details'')) ''data''
       = JStr ''details''
   \<and> getProp (createErrorObject example_host (JNum (Fin (- 32000))) (JStr ''bad'') (JStr ''details'')) ''code''
       = JNum (Fin (- 32000))
   \<and> getProp (createErrorObject example_host (JNum NaN) (JStr ''bad'') (JStr ''details'')) ''code''
       = JNum (Fin (- 32603))
   \<and> hasProp (createErrorObject example_host (JNum (Fin 1)) (JStr ''bad'') (JNum (Fin 0))) ''data'' = False"
proof -
  have t: "truthy (JStr ''details'')" by simp
  from error_object_fields [of example_host "JNum (Fin (- 32000))" "JStr ''bad''" "JStr ''details''" "Fin (- 32000)" "''bad''"]
       error_object_fields [of example_host "JNum NaN" "JStr ''bad''" "JStr ''details''" NaN "''bad''"]
       error_object_fields [of example_host "JNum (Fin 1)" "JStr ''bad''" "JNum (Fin 0)" "Fin 1" "''bad''"]
       t
  show ?thesis by simp
qed

text \<open>
  Claim C7 as it is written fails: 3/2 is not an integer-like number, and
  \<open>createErrorObject\<close> keeps it as the code instead of putting \<open>INTERNAL_ERROR\<close>.
\<close>

theorem fractional_code_counterexample:
  "\<not> isIntegerLike (JNum (Fin (3 / 2)))
   \<and> getProp (createErrorObject example_host (JNum (Fin (3 / 2))) (JStr ''bad'') JUndefined) ''code''
       = JNum (Fin (3 / 2))
   \<and> JNum (Fin (3 / 2)) \<noteq> INTERNAL_ERROR"
proof -
  have "floor (3 / 2 :: rat) = 1" by linarith
  then have "\<not> isIntegerLike (JNum (Fin (3 / 2)))" by (simp add: isIntegerLike_def)
  then show ?thesis by (simp add: createErrorObject_def isNumeric_JNum INTERNAL_ERROR_def)
qed

text \<open>
  Claim C10. When the executor, applied to each entry of a batch with the context of the
  batch (the one given, or the empty object when none is given), fulfils with the values
  \<open>vs\<close> (in the order of the entries), the batch handler fulfils with the values of \<open>vs\<close>
  that are not \<open>null\<close>, in the same order; it fulfils with \<open>null\<close> when none is left.
\<close>

theorem batch_keeps_request_order:
  assumes "map (\<lambda>request. fst (private_handleJsonRpcRequest h srv request (defaultContext ctx))) requests
             = map Fulfilled vs"
  shows "fst (private_handleJsonRpcBatchRequest h srv requests ctx) =
           Fulfilled (if filter (\<lambda>response. response \<noteq> JNull) vs = [] then JNull
                      else JArr (filter (\<lambda>response. response \<noteq> JNull) vs))"
  using assms by (rule batch_fulfilled)

text \<open>The theorem at a batch of an unknown method, a notification and a call that
  returns the context.\<close>

theorem batch_keeps_request_order_witness:
  "map (\<lambda>request. fst (private_handleJsonRpcRequest example_host example_server request
                         (defaultContext JUndefined)))
     [example_request ''nope'' (JStr ''c1''), example_notification ''getHelloString'',
      example_request ''getContext'' (JStr ''c2'')]
   = map Fulfilled
       [JObj [(''jsonrpc'', JStr ''2.0''),
              (''error'', JObj [(''code'', JNum (Fin (- 32601))),
                                (''message'', JStr (''Method '' @ [CHR 0x27] @ ''nope'' @ [CHR 0x27] @ '' not found''))]),
              (''id'', JStr ''c1'')],
        JNull,
        JObj [(''jsonrpc'', JStr ''2.0''), (''result'', JObj []), (''id'', JStr ''c2'')]]
   \<and> fst (private_handleJsonRpcBatchRequest example_host example_server
            [example_request ''nope'' (JStr ''c1''), example_notification ''getHelloString'',
             example_request ''getContext'' (JStr ''c2'')] JUndefined)
     = Fulfilled (JArr
       [JObj [(''jsonrpc'', JStr ''2.0''),
              (''error'', JObj [(''code'', JNum (Fin (- 32601))),
                                (''message'', JStr (''Method '' @ [CHR 0x27] @ ''nope'' @ [CHR 0x27] @ '' not found''))]),
              (''id'', JStr ''c1'')],
        JObj [(''jsonrpc'', JStr ''2.0''), (''result'', JObj []), (''id'', JStr ''c2'')]])"
proof -
  have m: "map (\<lambda>request. fst (private_handleJsonRpcRequest example_host example_server request
                         (defaultContext JUndefined)))
     [example_request ''nope'' (JStr ''c1''), example_notification ''getHelloString'',
      example_request ''getContext'' (JStr ''c2'')]
   = map Fulfilled
       [JObj [(''jsonrpc'', JStr ''2.0''),
              (''error'', JObj [(''code'', JNum (Fin (- 32601))),
                                (''message'', JStr (''Method '' @ [CHR 0x27] @ ''nope'' @ [CHR 0x27] @ '' not found''))]),
              (''id'', JStr ''c1'')],
        JNull,
        JObj [(''jsonrpc'', JStr ''2.0''), (''result'', JObj []), (''id'', JStr ''c2'')]]"
    by (simp add: model_defs example_defs)
  from batch_keeps_request_order [OF m] m show ?thesis by simp
qed

text \<open>
  Claim C2 against the code: a request whose \<open>id\<close> is the boolean \<open>true\<close>, which is
  not a number, a string or \<open>null\<close>, passes \<open>_validateRequest\<close>, because \<open>isNumeric\<close>
  converts \<open>true\<close> to the number 1; the response then carries the id \<open>true\<close>.
\<close>

theorem validator_accepts_boolean_id:
  "private_validateRequest example_host (example_request ''getHelloString'' (JBool True)) = JNull
   \<and> fst (handleJsonRpcRequest example_host example_server
            (example_request ''getHelloString'' (JBool True)) JUndefined)
      = Fulfilled (JObj [(''jsonrpc'', JStr ''2.0''), (''result'', JStr ''Hello World!''),
                         (''id'', JBool True)])"
  by (simp add: model_defs example_defs)

text \<open>The validator's answer for that request is not an error response.\<close>

theorem validator_accepts_boolean_id_witness:
  "\<not> truthy (private_validateRequest example_host (example_request ''getHelloString'' (JBool True)))"
  using validator_accepts_boolean_id by simp

text \<open>
  Claim C8 against the code: the first argument \<open>NaN\<close> is not an object, so the error
  object is to be \<open>createErrorObject(NaN, message, data)\<close>, which is what the constructor
  of the JavaScript build stores; the constructor of the TypeScript source stores \<open>NaN\<close>
  itself.
\<close>

theorem constructor_stores_NaN:
  "JsonRpcRequestException example_host (JNum NaN) (JStr ''bad'') JUndefined
     = RequestException (JNum NaN)
   \<and> JsonRpcRequestException_lib example_host (JNum NaN) (JStr ''bad'') JUndefined
     = RequestException (JObj [(''code'', JNum (Fin (- 32603))), (''message'', JStr ''bad'')])
   \<and> \<not> isObject (JNum NaN)
   \<and> createErrorObject example_host (JNum NaN) (JStr ''bad'') JUndefined
     = JObj [(''code'', JNum (Fin (- 32603))), (''message'', JStr ''bad'')]"
  by (simp add: JsonRpcRequestException_def JsonRpcRequestException_lib_def createErrorObject_def
        isNumeric_JNum INTERNAL_ERROR_def)

text \<open>The \<open>errorObj\<close> field that the TypeScript constructor leaves for that call.\<close>

theorem constructor_stores_NaN_witness:
  "errorObj (JsonRpcRequestException example_host (JNum NaN) (JStr ''bad'') JUndefined) = JNum NaN"
  using constructor_stores_NaN by simp

text \<open>
  Claim C9 against the code: a server with no registered method and a fallback callback
  receives a call of the method \<open>toString\<close>. The registry does not contain that name,
  yet the property read finds \<open>Object.prototype.toString\<close>; the executor calls it and
  returns its result. The fallback (function 5) is not consulted and no
  \<open>METHOD_NOT_FOUND\<close> response is made.
\<close>

theorem inherited_property_called_as_method:
  "map_of (methods (registerMethodCallback new_TinyJsonRpcServer (JFun 5))) ''toString'' = None
   \<and> handleJsonRpcRequest example_host (registerMethodCallback new_TinyJsonRpcServer (JFun 5))
        (example_request ''toString'' (JNum (Fin 1))) JUndefined
      = (Fulfilled (JObj [(''jsonrpc'', JStr ''2.0''), (''result'', JStr ''[object Undefined]''),
                          (''id'', JNum (Fin 1))]),
         [Call 0 [JUndefined, JObj []]])"
  by (simp add: model_defs example_defs)

text \<open>The only call made for that request is the call of function 0.\<close>

theorem inherited_property_called_as_method_witness:
  "snd (handleJsonRpcRequest example_host (registerMethodCallback new_TinyJsonRpcServer (JFun 5))
        (example_request ''toString'' (JNum (Fin 1))) JUndefined) = [Call 0 [JUndefined, JObj []]]"
  using inherited_property_called_as_method by simp

section \<open>Further properties\<close>

text \<open>
  The validator, check by check and in the order of the source, with the responses
  written out. An \<open>id\<close> that is a finite number, a string or \<open>null\<close> is accepted;
  \<open>undefined\<close>, \<open>NaN\<close> and the infinities are rejected.
\<close>

theorem validator_checks_in_order:
  "private_validateRequest h request =
     (if \<not> isObject request then invalidRequest ''Invalid request'' JNull
      else if \<not> truthy (getProp request ''jsonrpc'') then
        invalidRequest ''Invalid request, missing jsonrpc version'' JNull
      else if hasProp request ''id'' \<and> \<not> validId h (getProp request ''id'') then
        invalidRequest ''Invalid request, invalid id'' JNull
      else if \<not> isString (getProp request ''method'') \<or> getProp request ''method'' = JStr [] then
        invalidRequest ''Invalid request, missing method'' (resolvedId request)
      else if truthy (getProp request ''params'') \<and> \<not> validParams (getProp request ''params'') then
        invalidRequest ''Invalid request, invalid parameter type'' (resolvedId request)
      else JNull)
   \<and> validId h (JNum (Fin r)) \<and> validId h (JStr s) \<and> validId h (JStringObj s) \<and> validId h JNull
   \<and> \<not> validId h JUndefined \<and> \<not> validId h (JNum NaN)
   \<and> \<not> validId h (JNum PosInfinity) \<and> \<not> validId h (JNum NegInfinity)"
proof -
  have ids: "validId h (JNum (Fin r)) \<and> validId h (JStr s) \<and> validId h (JStringObj s) \<and> validId h JNull
   \<and> \<not> validId h JUndefined \<and> \<not> validId h (JNum NaN)
   \<and> \<not> validId h (JNum PosInfinity) \<and> \<not> validId h (JNum NegInfinity)"
    by (simp add: validId_def isNumeric_def isFinite_def isString_def)
  have rid: "hasProp request ''id'' \<longrightarrow> validId h (getProp request ''id'') \<Longrightarrow> resolvedId request \<noteq> JUndefined"
    by (auto simp: resolvedId_def dest: validId_not_undefined)
  have "private_validateRequest h request =
     (if \<not> isObject request then invalidRequest ''Invalid request'' JNull
      else if \<not> truthy (getProp request ''jsonrpc'') then
        invalidRequest ''Invalid request, missing jsonrpc version'' JNull
      else if hasProp request ''id'' \<and> \<not> validId h (getProp request ''id'') then
        invalidRequest ''Invalid request, invalid id'' JNull
      else if \<not> isString (getProp request ''method'') \<or> getProp request ''method'' = JStr [] then
        invalidRequest ''Invalid request, missing method'' (resolvedId request)
      else if truthy (getProp request ''params'') \<and> \<not> validParams (getProp request ''params'') then
        invalidRequest ''Invalid request, invalid parameter type'' (resolvedId request)
      else JNull)"
    using rid
    by (auto simp: private_validateRequest_def Let_def invalid_request_response resolvedId_def)
  with ids show ?thesis by blast
qed

text \<open>One request for each outcome of the validator.\<close>

theorem validator_checks_in_order_witness:
  "private_validateRequest example_host (JNum (Fin 1)) = invalidRequest ''Invalid request'' JNull
   \<and> private_validateRequest example_host (JObj [(''method'', JStr ''m''), (''id'', JStr ''x'')])
       = invalidRequest ''Invalid request, missing jsonrpc version'' JNull
   \<and> private_validateRequest example_host
        (JObj [(''jsonrpc'', JStr ''2.0''), (''method'', JStr ''m''), (''id'', JUndefined)])
       = invalidRequest ''Invalid request, invalid id'' JNull
   \<and> private_validateRequest example_host (JObj [(''jsonrpc'', JStr ''2.0''), (''id'', JNum (Fin 3))])
       = invalidRequest ''Invalid request, missing method'' (JNum (Fin 3))
   \<and> private_validateRequest example_host
        (JObj [(''jsonrpc'', JStr ''2.0''), (''method'', JStr ''m''), (''id'', JNum (Fin 3)),
               (''params'', JNum (Fin 5))])
       = invalidRequest ''Invalid request, invalid parameter type'' (JNum (Fin 3))
   \<and> private_validateRequest example_host
        (JObj [(''jsonrpc'', JStr ''2.0''), (''method'', JStr ''m''), (''params'', JArr [])])
       = JNull"
proof -
  note v = validator_checks_in_order [of example_host _ 3 "''x''", THEN conjunct1]
  have ids: "\<not> validId example_host JUndefined" "validId example_host (JNum (Fin 3))"
    by (simp_all add: validId_def isNumeric_def isFinite_def isString_def)
  show ?thesis
    by (simp add: v ids isString_def validParams_def resolvedId_def)
qed

text \<open>
  Method resolution for a request that passed validation. A function the registry owns
  under the method name is called with the params and the context, and nothing else is
  called. When the registry does not own the name and \<open>Object.prototype\<close> has no
  property of that name, the fallback callback is called with the method, the params
  and the context; without a fallback, or when the fallback returns \<open>undefined\<close>, the
  executor answers \<open>METHOD_NOT_FOUND\<close> with the message naming the method and the
  resolved id; a fallback that returns \<open>null\<close> gives a result response with the result
  \<open>null\<close>.
\<close>

theorem method_resolution:
  assumes "private_validateRequest h request = JNull"
  shows "(\<forall>f. map_of (methods srv) (stringValue (getProp request ''method'')) = Some (JFun f) \<longrightarrow>
            invokeMethod h srv request ctx =
              (Some (apply_function h f [getProp request ''params'', ctx]),
               [Call f [getProp request ''params'', ctx]]))
       \<and> (\<forall>cb. map_of (methods srv) (stringValue (getProp request ''method'')) = None
                \<and> Object_prototype h (stringValue (getProp request ''method'')) = None
                \<and> methodCallback srv = JFun cb \<longrightarrow>
            snd (invokeMethod h srv request ctx) =
              [Call cb [getProp request ''method'', getProp request ''params'', ctx]])
       \<and> (map_of (methods srv) (stringValue (getProp request ''method'')) = None
            \<and> Object_prototype h (stringValue (getProp request ''method'')) = None
            \<and> (typeof (methodCallback srv) \<noteq> ''function''
                \<or> (\<exists>cb. methodCallback srv = JFun cb
                         \<and> apply_function h cb [getProp request ''method'', getProp request ''params'', ctx]
                             = Returns JUndefined)) \<longrightarrow>
            fst (private_handleJsonRpcRequest h srv request ctx) =
              Fulfilled (JObj [(''jsonrpc'', JStr ''2.0''),
                               (''error'', JObj [(''code'', JNum (Fin (- 32601))),
                                                 (''message'', notFoundMessage (getProp request ''method''))]),
                               (''id'', resolvedId request)]))
       \<and> (\<forall>cb. map_of (methods srv) (stringValue (getProp request ''method'')) = None
                \<and> Object_prototype h (stringValue (getProp request ''method'')) = None
                \<and> methodCallback srv = JFun cb
                \<and> apply_function h cb [getProp request ''method'', getProp request ''params'', ctx]
                     = Returns JNull \<longrightarrow>
            fst (private_handleJsonRpcRequest h srv request ctx) =
              Fulfilled (if hasProp request ''id''
                         then JObj [(''jsonrpc'', JStr ''2.0''), (''result'', JNull),
                                    (''id'', getProp request ''id'')]
                         else JNull))"
proof -
  have a: "\<forall>f. map_of (methods srv) (stringValue (getProp request ''method'')) = Some (JFun f) \<longrightarrow>
            invokeMethod h srv request ctx =
              (Some (apply_function h f [getProp request ''params'', ctx]),
               [Call f [getProp request ''params'', ctx]])"
    by (simp add: invokeMethod_def lookupMethod_def)
  have b: "\<forall>cb. map_of (methods srv) (stringValue (getProp request ''method'')) = None
                \<and> Object_prototype h (stringValue (getProp request ''method'')) = None
                \<and> methodCallback srv = JFun cb \<longrightarrow>
            snd (invokeMethod h srv request ctx) =
              [Call cb [getProp request ''method'', getProp request ''params'', ctx]]"
    by (simp add: invokeMethod_def lookupMethod_def)
  have nf: "createErrorResponse h (resolvedId request) METHOD_NOT_FOUND
              (notFoundMessage (getProp request ''method'')) JUndefined
            = JObj [(''jsonrpc'', JStr ''2.0''),
                    (''error'', JObj [(''code'', JNum (Fin (- 32601))),
                                      (''message'', notFoundMessage (getProp request ''method''))]),
                    (''id'', resolvedId request)]"
    using valid_resolvedId [OF assms]
    by (simp add: createErrorResponse_def createErrorObject_def isNumeric_codes notFoundMessage_def)
       (simp add: METHOD_NOT_FOUND_def)
  have c: "map_of (methods srv) (stringValue (getProp request ''method'')) = None
            \<and> Object_prototype h (stringValue (getProp request ''method'')) = None
            \<and> (typeof (methodCallback srv) \<noteq> ''function''
                \<or> (\<exists>cb. methodCallback srv = JFun cb
                         \<and> apply_function h cb [getProp request ''method'', getProp request ''params'', ctx]
                             = Returns JUndefined)) \<longrightarrow>
            fst (private_handleJsonRpcRequest h srv request ctx) =
              Fulfilled (JObj [(''jsonrpc'', JStr ''2.0''),
                               (''error'', JObj [(''code'', JNum (Fin (- 32601))),
                                                 (''message'', notFoundMessage (getProp request ''method''))]),
                               (''id'', resolvedId request)])"
  proof
    assume h1: "map_of (methods srv) (stringValue (getProp request ''method'')) = None
            \<and> Object_prototype h (stringValue (getProp request ''method'')) = None
            \<and> (typeof (methodCallback srv) \<noteq> ''function''
                \<or> (\<exists>cb. methodCallback srv = JFun cb
                         \<and> apply_function h cb [getProp request ''method'', getProp request ''params'', ctx]
                             = Returns JUndefined))"
    then have "\<exists>cs. invokeMethod h srv request ctx = (None, cs)"
      by (auto simp: invokeMethod_def lookupMethod_def)
    then obtain cs where "invokeMethod h srv request ctx = (None, cs)" by blast
    from executor_not_found [OF assms this] nf
    show "fst (private_handleJsonRpcRequest h srv request ctx) =
              Fulfilled (JObj [(''jsonrpc'', JStr ''2.0''),
                               (''error'', JObj [(''code'', JNum (Fin (- 32601))),
                                                 (''message'', notFoundMessage (getProp request ''method''))]),
                               (''id'', resolvedId request)])"
      by simp
  qed
  have d: "\<forall>cb. map_of (methods srv) (stringValue (getProp request ''method'')) = None
                \<and> Object_prototype h (stringValue (getProp request ''method'')) = None
                \<and> methodCallback srv = JFun cb
                \<and> apply_function h cb [getProp request ''method'', getProp request ''params'', ctx]
                     = Returns JNull \<longrightarrow>
            fst (private_handleJsonRpcRequest h srv request ctx) =
              Fulfilled (if hasProp request ''id''
                         then JObj [(''jsonrpc'', JStr ''2.0''), (''result'', JNull),
                                    (''id'', getProp request ''id'')]
                         else JNull)"
  proof (intro allI impI)
    fix cb
    assume h2: "map_of (methods srv) (stringValue (getProp request ''method'')) = None
                \<and> Object_prototype h (stringValue (getProp request ''method'')) = None
                \<and> methodCallback srv = JFun cb
                \<and> apply_function h cb [getProp request ''method'', getProp request ''params'', ctx]
                     = Returns JNull"
    then have "fst (invokeMethod h srv request ctx) = Some (Returns JNull)"
      by (simp add: invokeMethod_def lookupMethod_def)
    from executor_success [OF assms this, of JNull]
    show "fst (private_handleJsonRpcRequest h srv request ctx) =
              Fulfilled (if hasProp request ''id''
                         then JObj [(''jsonrpc'', JStr ''2.0''), (''result'', JNull),
                                    (''id'', getProp request ''id'')]
                         else JNull)"
      by (simp add: createResultResponse_def)
  qed
  from a b c d show ?thesis by blast
qed

text \<open>The theorem at a registered method, an unknown method, and a fallback returning
  \<open>null\<close>.\<close>

theorem method_resolution_witness:
  "private_validateRequest example_host (example_request ''getHelloString'' (JNum (Fin 1))) = JNull
   \<and> map_of (methods (registerMethodCallback example_server (JFun 5)))
         (stringValue (getProp (example_request ''getHelloString'' (JNum (Fin 1))) ''method''))
       = Some (JFun 1)
   \<and> invokeMethod example_host (registerMethodCallback example_server (JFun 5))
         (example_request ''getHelloString'' (JNum (Fin 1))) JUndefined
       = (Some (Returns (JStr ''Hello World!'')), [Call 1 [JUndefined, JUndefined]])
   \<and> private_validateRequest example_host (example_request ''unknown'' (JNum (Fin 1))) = JNull
   \<and> map_of (methods (registerMethodCallback example_server (JFun 5)))
         (stringValue (getProp (example_request ''unknown'' (JNum (Fin 1))) ''method'')) = None
   \<and> Object_prototype example_host
         (stringValue (getProp (example_request ''unknown'' (JNum (Fin 1))) ''method'')) = None
   \<and> methodCallback (registerMethodCallback example_server (JFun 5)) = JFun 5
   \<and> apply_function example_host 5 [JStr ''unknown'', JUndefined, JUndefined] = Returns JUndefined
   \<and> snd (invokeMethod example_host (registerMethodCallback example_server (JFun 5))
         (example_request ''unknown'' (JNum (Fin 1))) JUndefined)
       = [Call 5 [JStr ''unknown'', JUndefined, JUndefined]]
   \<and> fst (private_handleJsonRpcRequest example_host (registerMethodCallback example_server (JFun 5))
         (example_request ''unknown'' (JNum (Fin 1))) JUndefined)
       = Fulfilled (JObj [(''jsonrpc'', JStr ''2.0''),
                          (''error'', JObj [(''code'', JNum (Fin (- 32601))),
                                            (''message'', notFoundMessage (JStr ''unknown''))]),
                          (''id'', JNum (Fin 1))])
   \<and> apply_function example_host 6 [JStr ''unknown'', JUndefined, JUndefined] = Returns JNull
   \<and> fst (private_handleJsonRpcRequest example_host (registerMethodCallback example_server (JFun 6))
         (example_request ''unknown'' (JNum (Fin 1))) JUndefined)
       = Fulfilled (JObj [(''jsonrpc'', JStr ''2.0''), (''result'', JNull), (''id'', JNum (Fin 1))])"
proof -
  have v: "\<And>name. name \<noteq> [] \<Longrightarrow>
      private_validateRequest example_host (example_request name (JNum (Fin 1))) = JNull"
    by (simp add: private_validateRequest_def validId_def validParams_def isNumeric_def isFinite_def
          isString_def example_request_def)
  have p: "\<And>name. getProp (example_request name (JNum (Fin 1))) ''method'' = JStr name"
      "\<And>name. getProp (example_request name (JNum (Fin 1))) ''params'' = JUndefined"
      "\<And>name. getProp (example_request name (JNum (Fin 1))) ''id'' = JNum (Fin 1)"
      "\<And>name. hasProp (example_request name (JNum (Fin 1))) ''id''"
      "\<And>name. resolvedId (example_request name (JNum (Fin 1))) = JNum (Fin 1)"
    by (simp_all add: example_request_def resolvedId_def)
  have m: "map_of (methods (registerMethodCallback example_server (JFun 5))) ''getHelloString'' = Some (JFun 1)"
      "map_of (methods (registerMethodCallback example_server (JFun 5))) ''unknown'' = None"
      "map_of (methods (registerMethodCallback example_server (JFun 6))) ''unknown'' = None"
      "Object_prototype example_host ''unknown'' = None"
      "methodCallback (registerMethodCallback example_server (JFun 5)) = JFun 5"
      "methodCallback (registerMethodCallback example_server (JFun 6)) = JFun 6"
    by (simp_all add: example_defs)
  have f: "apply_function example_host 1 [JUndefined, JUndefined] = Returns (JStr ''Hello World!'')"
      "apply_function example_host 5 [JStr ''unknown'', JUndefined, JUndefined] = Returns JUndefined"
      "apply_function example_host 6 [JStr ''unknown'', JUndefined, JUndefined] = Returns JNull"
    by (simp_all add: example_defs)
  note r1 = method_resolution [OF v, of "''getHelloString''" "registerMethodCallback example_server (JFun 5)" JUndefined]
  note r2 = method_resolution [OF v, of "''unknown''" "registerMethodCallback example_server (JFun 5)" JUndefined]
  note r3 = method_resolution [OF v, of "''unknown''" "registerMethodCallback example_server (JFun 6)" JUndefined]
  from r1 m f have a: "invokeMethod example_host (registerMethodCallback example_server (JFun 5))
         (example_request ''getHelloString'' (JNum (Fin 1))) JUndefined
       = (Some (Returns (JStr ''Hello World!'')), [Call 1 [JUndefined, JUndefined]])"
    by (simp add: p)
  from r2 m f have b: "snd (invokeMethod example_host (registerMethodCallback example_server (JFun 5))
         (example_request ''unknown'' (JNum (Fin 1))) JUndefined)
       = [Call 5 [JStr ''unknown'', JUndefined, JUndefined]]"
    by (simp add: p)
  from r2 m f have c: "fst (private_handleJsonRpcRequest example_host (registerMethodCallback example_server (JFun 5))
         (example_request ''unknown'' (JNum (Fin 1))) JUndefined)
       = Fulfilled (JObj [(''jsonrpc'', JStr ''2.0''),
                          (''error'', JObj [(''code'', JNum (Fin (- 32601))),
                                            (''message'', notFoundMessage (JStr ''unknown''))]),
                          (''id'', JNum (Fin 1))])"
    by (simp add: p)
  from r3 m f have d: "fst (private_handleJsonRpcRequest example_host (registerMethodCallback example_server (JFun 6))
         (example_request ''unknown'' (JNum (Fin 1))) JUndefined)
       = Fulfilled (JObj [(''jsonrpc'', JStr ''2.0''), (''result'', JNull), (''id'', JNum (Fin 1))])"
    by (simp add: p)
  from a b c d v [of "''getHelloString''"] v [of "''unknown''"] m f show ?thesis by (simp add: p)
qed

end
